theory Spec2Isabelle
  imports Main "HOL-Library.Word"
begin

unbundle bit_operations_syntax

section \<open>The recorder's data\<close>

text \<open>
  The \<open>record\<close> command of audio-recorder (\<open>Run\<close>, \<open>writeFormChunk\<close>, \<open>writeCommonChunk\<close>,
  \<open>writeSoundChunk\<close>) as functions on an explicit world: the output file (its bytes and its
  offset), the frame buffer \<open>in\<close>, the counter \<open>numSamples\<close>, the variable \<open>err\<close> of \<open>Run\<close>,
  and two histories the program leaves behind, the calls it made to the operating system and to
  portaudio, and the lines it logged.

  Go's \<open>int\<close> is taken as 64 bits wide (amd64, arm64); \<open>int32\<close> and \<open>int16\<close> are words of
  their width, so that the conversion \<open>int32(x)\<close> is the truncation \<open>ucast\<close>.
\<close>

type_synonym byte = "8 word"
type_synonym int16 = "16 word"
type_synonym int32 = "32 word"
type_synonym goint = "64 word"

datatype call =
    OsCreate string
  | FileWrite "byte list"
  | FileSeek nat
  | FileClose
  | PaInitialize
  | PaTerminate
  | OpenDefaultStream
  | StreamStart
  | StreamStop
  | StreamClose
  | StreamRead

datatype error = Failed call

datatype level = Info | Success | Error

datatype logline = Flog level string | Usage

text \<open>
  What the \<open>select\<close> of the capture loop takes on one iteration: a line of stdin waiting on
  \<open>done\<close>, a signal waiting on \<open>stop\<close>, or the default branch, with the samples the device
  puts into the buffer during that read (none when it leaves the buffer as it was).
\<close>

datatype event = StdinLine | OsSignal | Default "int32 list"

text \<open>
  The environment of one run. \<open>faults i\<close> is the outcome of the \<open>i\<close>-th external call of the
  run, counted from 0 in program order: \<open>None\<close> when it succeeds, \<open>Some k\<close> when it fails (a
  failing write has put its first \<open>k\<close> bytes into the file). \<open>now\<close> is \<open>time.Now().Unix()\<close>,
  \<open>sched\<close> the outcomes of the loop's \<open>select\<close>, one per iteration.
\<close>

type_synonym faults = "nat \<Rightarrow> nat option"

record env =
  faults :: faults
  now :: "64 word"
  sched :: "event list"

record world =
  bytes :: "byte list"
  offset :: nat
  calls :: "call list"
  logged :: "logline list"
  inbuf :: "int32 list"
  numSamples :: goint
  err :: "error option"

definition init_world :: world where
  "init_world = \<lparr>bytes = [], offset = 0, calls = [], logged = [], inbuf = [],
     numSamples = 0, err = None\<rparr>"

section \<open>Encoding\<close>

text \<open>\<open>binary.Write(f, binary.BigEndian, v)\<close> for the three types the program writes.\<close>

definition be16 :: "int16 \<Rightarrow> byte list" where
  "be16 x = [ucast (drop_bit 8 x), ucast x]"

definition be32 :: "int32 \<Rightarrow> byte list" where
  "be32 x = [ucast (drop_bit 24 x), ucast (drop_bit 16 x), ucast (drop_bit 8 x), ucast x]"

definition be32s :: "int32 list \<Rightarrow> byte list" where
  "be32s xs = concat (map be32 xs)"

definition ascii :: "string \<Rightarrow> byte list" where
  "ascii s = map of_char s"


definition slice :: "nat \<Rightarrow> nat \<Rightarrow> 'a list \<Rightarrow> 'a list" where
  "slice i n xs = take n (drop i xs)"

text \<open>\<open>fmt.Sprintf("%d", n)\<close>: the decimal digits, a minus sign first for a negative number.\<close>

function dec_nat :: "nat \<Rightarrow> string" where
  "dec_nat n = (if n < 10 then [char_of (48 + n)]
                else dec_nat (n div 10) @ [char_of (48 + n mod 10)])"
  by pat_completeness auto
termination
  by (relation "measure (\<lambda>n. n)") auto

definition fmt_d :: "int \<Rightarrow> string" where
  "fmt_d i = (if i < 0 then CHR ''-'' # dec_nat (nat (- i)) else dec_nat (nat i))"

section \<open>External calls\<close>

text \<open>Every external call is entered in the history; its outcome is the environment's.\<close>

definition syscall :: "faults \<Rightarrow> call \<Rightarrow> world \<Rightarrow> nat option \<times> world" where
  "syscall flt c w = (flt (length (calls w)), w\<lparr>calls := calls w @ [c]\<rparr>)"

text \<open>
  Writing \<open>bs\<close> at offset \<open>p\<close> of a file holding \<open>xs\<close>: the bytes there are replaced, the
  file grows when the write runs past its end (a gap is filled with zeros).
\<close>

definition pwrite :: "nat \<Rightarrow> byte list \<Rightarrow> byte list \<Rightarrow> byte list" where
  "pwrite p bs xs =
     (if bs = [] then xs
      else take p xs @ replicate (p - length xs) 0 @ bs @ drop (p + length bs) xs)"

definition File_Write :: "faults \<Rightarrow> byte list \<Rightarrow> world \<Rightarrow> error option \<times> world" where
  "File_Write flt bs w =
     (case syscall flt (FileWrite bs) w of
        (None, w1) \<Rightarrow>
          (None, w1\<lparr>bytes := pwrite (offset w1) bs (bytes w1),
                     offset := offset w1 + length bs\<rparr>)
      | (Some k, w1) \<Rightarrow>
          (Some (Failed (FileWrite bs)),
           w1\<lparr>bytes := pwrite (offset w1) (take k bs) (bytes w1),
               offset := offset w1 + length (take k bs)\<rparr>))"

definition WriteString :: "faults \<Rightarrow> string \<Rightarrow> world \<Rightarrow> error option \<times> world" where
  "WriteString flt s w = File_Write flt (ascii s) w"

definition binary_Write :: "faults \<Rightarrow> byte list \<Rightarrow> world \<Rightarrow> error option \<times> world" where
  "binary_Write flt encoded w = File_Write flt encoded w"

text \<open>\<open>f.Seek(off, 0)\<close>: the offset is absolute.\<close>

definition File_Seek :: "faults \<Rightarrow> nat \<Rightarrow> world \<Rightarrow> error option \<times> world" where
  "File_Seek flt off w =
     (case syscall flt (FileSeek off) w of
        (None, w1) \<Rightarrow> (None, w1\<lparr>offset := off\<rparr>)
      | (Some k, w1) \<Rightarrow> (Some (Failed (FileSeek off)), w1))"

definition File_Close :: "faults \<Rightarrow> world \<Rightarrow> error option \<times> world" where
  "File_Close flt w =
     (case syscall flt FileClose w of
        (None, w1) \<Rightarrow> (None, w1)
      | (Some k, w1) \<Rightarrow> (Some (Failed FileClose), w1))"

text \<open>\<open>os.Create\<close> truncates the file.\<close>

definition os_Create :: "faults \<Rightarrow> string \<Rightarrow> world \<Rightarrow> error option \<times> world" where
  "os_Create flt name w =
     (case syscall flt (OsCreate name) w of
        (None, w1) \<Rightarrow> (None, w1\<lparr>bytes := [], offset := 0\<rparr>)
      | (Some k, w1) \<Rightarrow> (Some (Failed (OsCreate name)), w1))"

text \<open>portaudio's calls that return only an error.\<close>

definition pa_call :: "faults \<Rightarrow> call \<Rightarrow> world \<Rightarrow> error option \<times> world" where
  "pa_call flt c w =
     (case syscall flt c w of
        (None, w1) \<Rightarrow> (None, w1)
      | (Some k, w1) \<Rightarrow> (Some (Failed c), w1))"

text \<open>
  \<open>stream.Read()\<close> fills the buffer in place: the slice keeps its length, the device's
  samples replace its first elements.
\<close>

definition refill :: "int32 list \<Rightarrow> int32 list \<Rightarrow> int32 list" where
  "refill buf samples = take (length buf) (samples @ drop (length samples) buf)"

definition stream_Read :: "faults \<Rightarrow> int32 list \<Rightarrow> world \<Rightarrow> error option \<times> world" where
  "stream_Read flt samples w =
     (case syscall flt StreamRead w of
        (None, w1) \<Rightarrow> (None, w1\<lparr>inbuf := refill (inbuf w1) samples\<rparr>)
      | (Some k, w1) \<Rightarrow> (Some (Failed StreamRead), w1\<lparr>inbuf := refill (inbuf w1) samples\<rparr>))"

definition flog :: "level \<Rightarrow> string \<Rightarrow> world \<Rightarrow> world" where
  "flog lv msg w = w\<lparr>logged := logged w @ [Flog lv msg]\<rparr>"

definition fl_Usage :: "world \<Rightarrow> world" where
  "fl_Usage w = w\<lparr>logged := logged w @ [Usage]\<rparr>"

section \<open>The header chunks\<close>

definition writeFormChunk :: "faults \<Rightarrow> world \<Rightarrow> error option \<times> world" where
  "writeFormChunk flt w =
     (case WriteString flt ''FORM'' w of
        (Some e, w1) \<Rightarrow> (Some e, w1)
      | (None, w1) \<Rightarrow>
     (case binary_Write flt (be32 0) w1 of
        (Some e, w2) \<Rightarrow> (Some e, w2)
      | (None, w2) \<Rightarrow>
     (case WriteString flt ''AIFF'' w2 of
        (Some e, w3) \<Rightarrow> (Some e, w3)
      | (None, w3) \<Rightarrow> (None, w3))))"

definition sr :: "byte list" where
  "sr = [0x40, 0x0e, 0xac, 0x44, 0, 0, 0, 0, 0, 0]"

definition writeCommonChunk :: "faults \<Rightarrow> world \<Rightarrow> error option \<times> world" where
  "writeCommonChunk flt w =
     (case WriteString flt ''COMM'' w of
        (Some e, w1) \<Rightarrow> (Some e, w1)
      | (None, w1) \<Rightarrow>
     (case binary_Write flt (be32 18) w1 of
        (Some e, w2) \<Rightarrow> (Some e, w2)
      | (None, w2) \<Rightarrow>
     (case binary_Write flt (be16 1) w2 of
        (Some e, w3) \<Rightarrow> (Some e, w3)
      | (None, w3) \<Rightarrow>
     (case binary_Write flt (be32 0) w3 of
        (Some e, w4) \<Rightarrow> (Some e, w4)
      | (None, w4) \<Rightarrow>
     (case binary_Write flt (be16 32) w4 of
        (Some e, w5) \<Rightarrow> (Some e, w5)
      | (None, w5) \<Rightarrow>
     (case File_Write flt sr w5 of
        (Some e, w6) \<Rightarrow> (Some e, w6)
      | (None, w6) \<Rightarrow> (None, w6)))))))"

definition writeSoundChunk :: "faults \<Rightarrow> world \<Rightarrow> error option \<times> world" where
  "writeSoundChunk flt w =
     (case WriteString flt ''SSND'' w of
        (Some e, w1) \<Rightarrow> (Some e, w1)
      | (None, w1) \<Rightarrow>
     (case binary_Write flt (be32 0) w1 of
        (Some e, w2) \<Rightarrow> (Some e, w2)
      | (None, w2) \<Rightarrow>
     (case binary_Write flt (be32 0) w2 of
        (Some e, w3) \<Rightarrow> (Some e, w3)
      | (None, w3) \<Rightarrow>
     (case binary_Write flt (be32 0) w3 of
        (Some e, w4) \<Rightarrow> (Some e, w4)
      | (None, w4) \<Rightarrow> (None, w4)))))"

section \<open>The deferred functions of Run\<close>

text \<open>
  Each \<open>defer\<close> of \<open>Run\<close> is a function on the world. It runs when \<open>Run\<close> returns, by a
  \<open>return\<close> statement or at the end of its body, after the deferred functions registered
  later and before those registered earlier.
\<close>

definition deferCloseFile :: "faults \<Rightarrow> world \<Rightarrow> world" where
  "deferCloseFile flt w =
     (case File_Close flt (flog Info ''closing %s'' w) of
        (Some e, w1) \<Rightarrow> flog Error ''failed to close %s : %v'' w1
      | (None, w1) \<Rightarrow> flog Success ''successfully closed %s'' w1)"

text \<open>
  The deferred function that fills in the sizes assigns the result of each of its six calls
  to the one variable \<open>err\<close> of \<open>Run\<close>, and looks at \<open>err\<close> once, at its end.
\<close>

definition set_err :: "error option \<times> world \<Rightarrow> world" where
  "set_err r = (snd r)\<lparr>err := fst r\<rparr>"

definition deferFillSizes :: "faults \<Rightarrow> world \<Rightarrow> world" where
  "deferFillSizes flt w =
     (let w0 = flog Info ''filling in missing sizes'' w;
          totalBytes = 50 * numSamples w0;
          w1 = set_err (File_Seek flt 4 w0);
          w2 = set_err (binary_Write flt (be32 (ucast totalBytes)) w1);
          w3 = set_err (File_Seek flt 22 w2);
          w4 = set_err (binary_Write flt (be32 (ucast (numSamples w3))) w3);
          w5 = set_err (File_Seek flt 42 w4);
          w6 = set_err (binary_Write flt (be32 (ucast (4 * numSamples w5 + 8))) w5)
      in if err w6 \<noteq> None
         then flog Error ''failed to fill in missing sizes : %v'' w6
         else flog Success ''successfully filled in missing sizes.'' w6)"

definition deferTerminate :: "faults \<Rightarrow> world \<Rightarrow> world" where
  "deferTerminate flt w =
     (case pa_call flt PaTerminate (flog Info ''terminating portaudio'' w) of
        (Some e, w1) \<Rightarrow> flog Error ''failed to terminate portaudio : %v'' w1
      | (None, w1) \<Rightarrow> flog Success ''successfully terminated port audio'' w1)"

definition deferCloseStream :: "faults \<Rightarrow> world \<Rightarrow> world" where
  "deferCloseStream flt w =
     (case pa_call flt StreamClose (flog Info ''closing audio stream'' w) of
        (Some e, w1) \<Rightarrow> flog Error ''failed to close audio stream : %v'' w1
      | (None, w1) \<Rightarrow> flog Success ''successfully closed audio stream'' w1)"

definition deferStopStream :: "faults \<Rightarrow> world \<Rightarrow> world" where
  "deferStopStream flt w =
     (case pa_call flt StreamStop (flog Info ''stopping audio stream'' w) of
        (Some e, w1) \<Rightarrow> flog Error ''failed to stop audio stream : %v'' w1
      | (None, w1) \<Rightarrow> flog Success ''successfully stopped audio stream'' w1)"

section \<open>The capture loop\<close>

text \<open>The default branch of the \<open>select\<close>: read, write, count.\<close>

definition captureTick :: "faults \<Rightarrow> int32 list \<Rightarrow> world \<Rightarrow> world" where
  "captureTick flt samples w =
     (let w1 = (case stream_Read flt samples w of
                  (Some e, w') \<Rightarrow> flog Error ''failed to read from audio stream : %v'' w'
                | (None, w') \<Rightarrow> w');
          w2 = (case binary_Write flt (be32s (inbuf w1)) w1 of
                  (Some e, w') \<Rightarrow>
                    flog Error ''failed to write audio data to file as binary : %v'' w'
                | (None, w') \<Rightarrow> w')
      in w2\<lparr>numSamples := numSamples w2 + of_nat (length (inbuf w2))\<rparr>)"

text \<open>
  The loop \<open>recording\<close>. \<open>break recording\<close> leaves the loop for the end of \<open>Run\<close>'s body and
  \<open>return\<close> leaves \<open>Run\<close>; nothing stands between the loop and the end of the body, so both
  hand the world to the deferred functions. A schedule that ends before either is a loop
  that has not stopped: \<open>None\<close>.
\<close>

fun recording :: "faults \<Rightarrow> event list \<Rightarrow> world \<Rightarrow> world option" where
  "recording flt [] w = None"
| "recording flt (StdinLine # es) w = Some w"
| "recording flt (OsSignal # es) w = Some w"
| "recording flt (Default samples # es) w = recording flt es (captureTick flt samples w)"

section \<open>Run\<close>

text \<open>
  \<open>Run\<close> from its end to its start: each definition is the body of \<open>Run\<close> from one
  \<open>defer\<close> statement on, and the definition before it wraps it in that deferred function.
\<close>

definition afterStart :: "env \<Rightarrow> world \<Rightarrow> world option" where
  "afterStart e w =
     recording (faults e) (sched e)
       (flog Info ''press enter to stop recording''
          (flog Success ''successfully started capturing audio'' w))"

definition afterOpen :: "env \<Rightarrow> world \<Rightarrow> world option" where
  "afterOpen e w =
     (case pa_call (faults e) StreamStart w of
        (Some x, w1) \<Rightarrow>
          Some (fl_Usage (flog Error ''failed to start audio stream : %v'' w1))
      | (None, w1) \<Rightarrow> map_option (deferStopStream (faults e)) (afterStart e w1))"

definition afterInit :: "env \<Rightarrow> world \<Rightarrow> world option" where
  "afterInit e w =
     (case set_err (pa_call (faults e) OpenDefaultStream (w\<lparr>inbuf := replicate 64 0\<rparr>)) of w1 \<Rightarrow>
        if err w1 \<noteq> None
        then Some (fl_Usage (flog Error ''failed to open audio stream : %v'' w1))
        else map_option (deferCloseStream (faults e))
               (afterOpen e (flog Success ''successfully opened audio stream'' w1)))"

definition afterHeader :: "env \<Rightarrow> world \<Rightarrow> world option" where
  "afterHeader e w =
     (case pa_call (faults e) PaInitialize w of
        (Some x, w1) \<Rightarrow>
          Some (fl_Usage (flog Error ''failed to initialize portaudio : %v'' w1))
      | (None, w1) \<Rightarrow>
          map_option (deferTerminate (faults e))
            (afterInit e (flog Success ''successfully initialized portaudio'' w1)))"

definition afterCreate :: "env \<Rightarrow> world \<Rightarrow> world option" where
  "afterCreate e w =
     (case writeFormChunk (faults e) w of
        (Some x, w1) \<Rightarrow> Some (fl_Usage (flog Error ''failed to write form chunk : %v'' w1))
      | (None, w1) \<Rightarrow>
     (case writeCommonChunk (faults e) (flog Success ''successfully wrote form chunk'' w1) of
        (Some x, w2) \<Rightarrow> Some (fl_Usage (flog Error ''failed to write common chunk : %v'' w2))
      | (None, w2) \<Rightarrow>
     (case writeSoundChunk (faults e) (flog Success ''successfully wrote common chunk'' w2) of
        (Some x, w3) \<Rightarrow> Some (fl_Usage (flog Error ''failed to write sound chunk : %v'' w3))
      | (None, w3) \<Rightarrow>
          map_option (deferFillSizes (faults e))
            (afterHeader e
               ((flog Success ''successfully wrote sound chunk'' w3)\<lparr>numSamples := 0\<rparr>)))))"

definition outFileName :: "string \<Rightarrow> 64 word \<Rightarrow> string" where
  "outFileName outFile t =
     (if outFile = [] then fmt_d (sint t) @ ''.aiff'' else outFile @ ''.aiff'')"

definition Run :: "env \<Rightarrow> string \<Rightarrow> world option" where
  "Run e outFile =
     (case set_err (os_Create (faults e) (outFileName outFile (now e)) init_world) of w1 \<Rightarrow>
        if err w1 \<noteq> None
        then Some (fl_Usage (flog Error ''failed to create %s : %v'' w1))
        else map_option (deferCloseFile (faults e))
               (afterCreate e (flog Success ''successfully created %s'' w1)))"

text \<open>The ticks the loop completes under a schedule, and whether the schedule stops it.\<close>

fun iterations :: "event list \<Rightarrow> nat" where
  "iterations [] = 0"
| "iterations (StdinLine # es) = 0"
| "iterations (OsSignal # es) = 0"
| "iterations (Default samples # es) = Suc (iterations es)"

fun stops :: "event list \<Rightarrow> bool" where
  "stops [] = False"
| "stops (StdinLine # es) = True"
| "stops (OsSignal # es) = True"
| "stops (Default samples # es) = stops es"

definition no_faults :: faults where
  "no_faults = (\<lambda>i. None)"

section \<open>Notions for the statements\<close>

text \<open>
  \<open>ok_from flt k n\<close>: the \<open>n\<close> external calls from the \<open>k\<close>-th on succeed.
  \<open>file_ctl\<close> picks the seeks and the close out of a history; \<open>patch_calls n\<close> are the six
  calls of the size patch for the count \<open>n\<close>. \<open>ticks\<close> is the world after the default
  branches a schedule takes before it stops. \<open>report\<close> is the status line of a step whose
  call was the \<open>i\<close>-th. \<open>teardown\<close> is the five deferred functions in the order Go runs
  them, \<open>header54\<close> the header as the three chunk functions leave it, \<open>loop_start\<close> the
  world in which the loop is entered when every call before it succeeded.
\<close>

fun ok_from :: "faults \<Rightarrow> nat \<Rightarrow> nat \<Rightarrow> bool" where
  "ok_from flt k 0 = True"
| "ok_from flt k (Suc n) = (flt k = None \<and> ok_from flt (Suc k) n)"

fun file_ctl :: "call \<Rightarrow> bool" where
  "file_ctl (FileSeek off) = True"
| "file_ctl FileClose = True"
| "file_ctl c = False"

definition patch_calls :: "goint \<Rightarrow> call list" where
  "patch_calls n =
     [FileSeek 4, FileWrite (be32 (ucast (50 * n))),
      FileSeek 22, FileWrite (be32 (ucast n)),
      FileSeek 42, FileWrite (be32 (ucast (4 * n + 8)))]"

fun ticks :: "faults \<Rightarrow> event list \<Rightarrow> world \<Rightarrow> world" where
  "ticks flt [] w = w"
| "ticks flt (StdinLine # es) w = w"
| "ticks flt (OsSignal # es) w = w"
| "ticks flt (Default samples # es) w = ticks flt es (captureTick flt samples w)"

definition report :: "faults \<Rightarrow> nat \<Rightarrow> string \<Rightarrow> string \<Rightarrow> logline" where
  "report flt i good bad = (if flt i = None then Flog Success good else Flog Error bad)"

definition teardown :: "faults \<Rightarrow> world \<Rightarrow> world" where
  "teardown flt w =
     deferCloseFile flt (deferFillSizes flt (deferTerminate flt
       (deferCloseStream flt (deferStopStream flt w))))"

definition header_calls :: "call list" where
  "header_calls =
     [FileWrite (ascii ''FORM''), FileWrite (be32 0), FileWrite (ascii ''AIFF''),
      FileWrite (ascii ''COMM''), FileWrite (be32 18), FileWrite (be16 1),
      FileWrite (be32 0), FileWrite (be16 32), FileWrite sr,
      FileWrite (ascii ''SSND''), FileWrite (be32 0), FileWrite (be32 0),
      FileWrite (be32 0)]"

definition header54 :: "byte list" where
  "header54 =
     [0x46, 0x4F, 0x52, 0x4D, 0, 0, 0, 0, 0x41, 0x49, 0x46, 0x46,
      0x43, 0x4F, 0x4D, 0x4D, 0, 0, 0, 18, 0, 1, 0, 0, 0, 0, 0, 32,
      0x40, 0x0e, 0xac, 0x44, 0, 0, 0, 0, 0, 0,
      0x53, 0x53, 0x4E, 0x44, 0, 0, 0, 0, 0, 0, 0, 0, 0, 0, 0, 0]"

definition loop_start :: "string \<Rightarrow> world" where
  "loop_start name =
     \<lparr>bytes = header54, offset = 54,
      calls = OsCreate name # header_calls @ [PaInitialize, OpenDefaultStream, StreamStart],
      logged =
        [Flog Success ''successfully created %s'',
         Flog Success ''successfully wrote form chunk'',
         Flog Success ''successfully wrote common chunk'',
         Flog Success ''successfully wrote sound chunk'',
         Flog Success ''successfully initialized portaudio'',
         Flog Success ''successfully opened audio stream'',
         Flog Success ''successfully started capturing audio'',
         Flog Info ''press enter to stop recording''],
      inbuf = replicate 64 0, numSamples = 0, err = None\<rparr>"


section \<open>Lemmas\<close>

subsection \<open>External calls\<close>

lemma File_Write_if:
  "File_Write flt bs w =
     (if flt (length (calls w)) = None
      then (None, w\<lparr>calls := calls w @ [FileWrite bs],
                     bytes := pwrite (offset w) bs (bytes w),
                     offset := offset w + length bs\<rparr>)
      else (Some (Failed (FileWrite bs)),
            w\<lparr>calls := calls w @ [FileWrite bs],
               bytes := pwrite (offset w) (take (the (flt (length (calls w)))) bs) (bytes w),
               offset := offset w + length (take (the (flt (length (calls w)))) bs)\<rparr>))"
  by (auto simp add: File_Write_def syscall_def split: option.splits)

lemma File_Seek_if:
  "File_Seek flt off w =
     (if flt (length (calls w)) = None
      then (None, w\<lparr>calls := calls w @ [FileSeek off], offset := off\<rparr>)
      else (Some (Failed (FileSeek off)), w\<lparr>calls := calls w @ [FileSeek off]\<rparr>))"
  by (auto simp add: File_Seek_def syscall_def split: option.splits)

lemma File_Close_if:
  "File_Close flt w =
     (if flt (length (calls w)) = None
      then (None, w\<lparr>calls := calls w @ [FileClose]\<rparr>)
      else (Some (Failed FileClose), w\<lparr>calls := calls w @ [FileClose]\<rparr>))"
  by (auto simp add: File_Close_def syscall_def split: option.splits)

lemma os_Create_if:
  "os_Create flt name w =
     (if flt (length (calls w)) = None
      then (None, w\<lparr>calls := calls w @ [OsCreate name], bytes := [], offset := 0\<rparr>)
      else (Some (Failed (OsCreate name)), w\<lparr>calls := calls w @ [OsCreate name]\<rparr>))"
  by (auto simp add: os_Create_def syscall_def split: option.splits)

lemma pa_call_if:
  "pa_call flt c w =
     (if flt (length (calls w)) = None
      then (None, w\<lparr>calls := calls w @ [c]\<rparr>)
      else (Some (Failed c), w\<lparr>calls := calls w @ [c]\<rparr>))"
  by (auto simp add: pa_call_def syscall_def split: option.splits)

lemma stream_Read_if:
  "stream_Read flt samples w =
     (if flt (length (calls w)) = None
      then (None, w\<lparr>calls := calls w @ [StreamRead], inbuf := refill (inbuf w) samples\<rparr>)
      else (Some (Failed StreamRead),
            w\<lparr>calls := calls w @ [StreamRead], inbuf := refill (inbuf w) samples\<rparr>))"
  by (auto simp add: stream_Read_def syscall_def split: option.splits)

lemmas call_if = File_Write_if File_Seek_if File_Close_if os_Create_if pa_call_if stream_Read_if

lemma length_refill [simp]: "length (refill buf samples) = length buf"
  by (simp add: refill_def)

lemma refill_Nil [simp]: "refill buf [] = buf"
  by (simp add: refill_def)

lemma length_be32 [simp]: "length (be32 x) = 4"
  by (simp add: be32_def)

lemma length_be32s [simp]: "length (be32s xs) = 4 * length xs"
  by (induction xs) (simp_all add: be32s_def)

subsection \<open>Writing into the file\<close>

lemma pwrite_end: "pwrite (length xs) bs xs = xs @ bs"
  by (simp add: pwrite_def)



subsection \<open>One tick of the loop\<close>

lemma captureTick_calls:
  "calls (captureTick flt samples w) =
     calls w @ [StreamRead, FileWrite (be32s (refill (inbuf w) samples))]"
  by (simp add: captureTick_def Let_def binary_Write_def call_if flog_def)

lemma captureTick_numSamples:
  "numSamples (captureTick flt samples w) = numSamples w + of_nat (length (inbuf w))"
  by (simp add: captureTick_def Let_def binary_Write_def call_if flog_def)

lemma captureTick_inbuf:
  "inbuf (captureTick flt samples w) = refill (inbuf w) samples"
  by (simp add: captureTick_def Let_def binary_Write_def call_if flog_def)

lemma captureTick_err:
  "err (captureTick flt samples w) = err w"
  by (simp add: captureTick_def Let_def binary_Write_def call_if flog_def)

lemma captureTick_logged:
  "logged (captureTick flt samples w) =
     logged w
     @ (if flt (length (calls w)) = None then []
        else [Flog Error ''failed to read from audio stream : %v''])
     @ (if flt (Suc (length (calls w))) = None then []
        else [Flog Error ''failed to write audio data to file as binary : %v''])"
  by (auto simp add: captureTick_def Let_def binary_Write_def call_if flog_def)

lemma captureTick_bytes:
  assumes "offset w = length (bytes w)"
  shows "offset (captureTick flt samples w) = length (bytes (captureTick flt samples w))"
    and "\<exists>d. bytes (captureTick flt samples w) = bytes w @ d"
    and "flt (Suc (length (calls w))) = None \<Longrightarrow>
          bytes (captureTick flt samples w) = bytes w @ be32s (refill (inbuf w) samples)"
  using assms
  by (simp_all add: captureTick_def Let_def binary_Write_def call_if flog_def pwrite_end)

subsection \<open>The loop\<close>

lemma recording_ticks:
  "recording flt evs w = (if stops evs then Some (ticks flt evs w) else None)"
  by (induction flt evs w rule: recording.induct) simp_all

lemma ticks_inbuf_length: "length (inbuf (ticks flt evs w)) = length (inbuf w)"
  by (induction flt evs w rule: ticks.induct) (simp_all add: captureTick_inbuf)

lemma ticks_numSamples:
  "numSamples (ticks flt evs w) =
     numSamples w + of_nat (iterations evs) * of_nat (length (inbuf w))"
  by (induction flt evs w rule: ticks.induct)
    (simp_all add: captureTick_numSamples captureTick_inbuf algebra_simps)

lemma ticks_err: "err (ticks flt evs w) = err w"
  by (induction flt evs w rule: ticks.induct) (simp_all add: captureTick_err)

lemma ticks_calls:
  "\<exists>cs. calls (ticks flt evs w) = calls w @ cs \<and> filter file_ctl cs = []
        \<and> length cs = 2 * iterations evs"
proof (induction flt evs w rule: ticks.induct)
  case (4 flt samples es w)
  then obtain cs where cs: "calls (ticks flt es (captureTick flt samples w)) =
      calls (captureTick flt samples w) @ cs" "filter file_ctl cs = []"
      "length cs = 2 * iterations es"
    by blast
  show ?case
    by (rule exI [of _ "[StreamRead, FileWrite (be32s (refill (inbuf w) samples))] @ cs"])
      (simp add: cs captureTick_calls)
qed simp_all

lemma ticks_logged: "\<exists>ls. logged (ticks flt evs w) = logged w @ ls"
proof (induction flt evs w rule: ticks.induct)
  case (4 flt samples es w)
  then obtain ls where "logged (ticks flt es (captureTick flt samples w)) =
      logged (captureTick flt samples w) @ ls"
    by blast
  then show ?case
    by (simp add: captureTick_logged)
qed simp_all


subsection \<open>The deferred functions\<close>

lemma deferStopStream_calls: "calls (deferStopStream flt w) = calls w @ [StreamStop]"
  by (simp add: deferStopStream_def call_if flog_def)

lemma deferCloseStream_calls: "calls (deferCloseStream flt w) = calls w @ [StreamClose]"
  by (simp add: deferCloseStream_def call_if flog_def)

lemma deferTerminate_calls: "calls (deferTerminate flt w) = calls w @ [PaTerminate]"
  by (simp add: deferTerminate_def call_if flog_def)

lemma deferCloseFile_calls: "calls (deferCloseFile flt w) = calls w @ [FileClose]"
  by (simp add: deferCloseFile_def call_if flog_def)

lemma deferStopStream_logged:
  "logged (deferStopStream flt w) =
     logged w @ [Flog Info ''stopping audio stream'',
       report flt (length (calls w)) ''successfully stopped audio stream''
         ''failed to stop audio stream : %v'']"
  by (simp add: deferStopStream_def call_if flog_def report_def)

lemma deferCloseStream_logged:
  "logged (deferCloseStream flt w) =
     logged w @ [Flog Info ''closing audio stream'',
       report flt (length (calls w)) ''successfully closed audio stream''
         ''failed to close audio stream : %v'']"
  by (simp add: deferCloseStream_def call_if flog_def report_def)

lemma deferTerminate_logged:
  "logged (deferTerminate flt w) =
     logged w @ [Flog Info ''terminating portaudio'',
       report flt (length (calls w)) ''successfully terminated port audio''
         ''failed to terminate portaudio : %v'']"
  by (simp add: deferTerminate_def call_if flog_def report_def)

lemma deferCloseFile_logged:
  "logged (deferCloseFile flt w) =
     logged w @ [Flog Info ''closing %s'',
       report flt (length (calls w)) ''successfully closed %s'' ''failed to close %s : %v'']"
  by (simp add: deferCloseFile_def call_if flog_def report_def)

lemma defer_keeps:
  "numSamples (deferStopStream flt w) = numSamples w"
  "numSamples (deferCloseStream flt w) = numSamples w"
  "numSamples (deferTerminate flt w) = numSamples w"
  "numSamples (deferCloseFile flt w) = numSamples w"
  "bytes (deferStopStream flt w) = bytes w"
  "bytes (deferCloseStream flt w) = bytes w"
  "bytes (deferTerminate flt w) = bytes w"
  "bytes (deferCloseFile flt w) = bytes w"
  "offset (deferStopStream flt w) = offset w"
  "offset (deferCloseStream flt w) = offset w"
  "offset (deferTerminate flt w) = offset w"
  "offset (deferCloseFile flt w) = offset w"
  by (simp_all add: deferStopStream_def deferCloseStream_def deferTerminate_def
      deferCloseFile_def call_if flog_def)

lemma File_Seek_proj:
  "(fst (File_Seek flt off w) = None) = (flt (length (calls w)) = None)"
  "calls (snd (File_Seek flt off w)) = calls w @ [FileSeek off]"
  "logged (snd (File_Seek flt off w)) = logged w"
  "numSamples (snd (File_Seek flt off w)) = numSamples w"
  "inbuf (snd (File_Seek flt off w)) = inbuf w"
  by (simp_all add: File_Seek_if)

lemma File_Write_proj:
  "(fst (File_Write flt bs w) = None) = (flt (length (calls w)) = None)"
  "calls (snd (File_Write flt bs w)) = calls w @ [FileWrite bs]"
  "logged (snd (File_Write flt bs w)) = logged w"
  "numSamples (snd (File_Write flt bs w)) = numSamples w"
  "inbuf (snd (File_Write flt bs w)) = inbuf w"
  by (simp_all add: File_Write_if)

lemma set_err_proj:
  "err (set_err r) = fst r"
  "calls (set_err r) = calls (snd r)"
  "logged (set_err r) = logged (snd r)"
  "numSamples (set_err r) = numSamples (snd r)"
  "inbuf (set_err r) = inbuf (snd r)"
  "bytes (set_err r) = bytes (snd r)"
  "offset (set_err r) = offset (snd r)"
  by (simp_all add: set_err_def)

lemma flog_proj:
  "calls (flog lv m w) = calls w"
  "logged (flog lv m w) = logged w @ [Flog lv m]"
  "numSamples (flog lv m w) = numSamples w"
  "inbuf (flog lv m w) = inbuf w"
  "bytes (flog lv m w) = bytes w"
  "offset (flog lv m w) = offset w"
  "err (flog lv m w) = err w"
  by (simp_all add: flog_def)

lemmas patch_proj = File_Seek_proj File_Write_proj set_err_proj flog_proj

lemma deferFillSizes_calls:
  "calls (deferFillSizes flt w) = calls w @ patch_calls (numSamples w)"
  by (simp add: deferFillSizes_def Let_def binary_Write_def patch_proj patch_calls_def)

lemma deferFillSizes_numSamples: "numSamples (deferFillSizes flt w) = numSamples w"
  by (simp add: deferFillSizes_def Let_def binary_Write_def patch_proj)

lemma deferFillSizes_logged:
  "logged (deferFillSizes flt w) =
     logged w @ [Flog Info ''filling in missing sizes'',
       report flt (length (calls w) + 5) ''successfully filled in missing sizes.''
         ''failed to fill in missing sizes : %v'']"
  by (simp add: deferFillSizes_def Let_def binary_Write_def patch_proj report_def
      eval_nat_numeral)

lemmas chunk_defs = writeFormChunk_def writeCommonChunk_def writeSoundChunk_def
  WriteString_def binary_Write_def File_Write_if

lemma ok_from_numeral:
  "ok_from flt k (numeral n) = (flt k = None \<and> ok_from flt (Suc k) (pred_numeral n))"
  by (simp add: numeral_eq_Suc)

lemma ok_from_1: "ok_from flt k 1 = (flt k = None)"
  by simp

lemma ok_from_add:
  "ok_from flt k (m + n) = (ok_from flt k m \<and> ok_from flt (k + m) n)"
  by (induction m arbitrary: k) simp_all

lemma ok_from_iff: "ok_from flt k n = (\<forall>i<n. flt (k + i) = None)"
proof (induction n arbitrary: k)
  case (Suc n)
  show ?case
    by (auto simp add: Suc less_Suc_eq_0_disj)
qed simp

lemma setup_split:
  "ok_from flt 0 17 = (flt 0 = None \<and> ok_from flt 1 13 \<and> ok_from flt 14 3)"
  using ok_from_add [of flt 0 1 16] ok_from_add [of flt 1 13 3] by simp

lemma length_header54: "length header54 = 54"
  by (simp add: header54_def)

lemma length_header_calls: "length header_calls = 13"
  by (simp add: header_calls_def)

lemma afterCreate_ok:
  assumes "ok_from (faults e) (length (calls w)) 13" "bytes w = []" "offset w = 0"
  shows "afterCreate e w =
     map_option (deferFillSizes (faults e))
       (afterHeader e (w\<lparr>bytes := header54, offset := length header54,
          calls := calls w @ header_calls,
          logged := logged w @ [Flog Success ''successfully wrote form chunk'',
            Flog Success ''successfully wrote common chunk'',
            Flog Success ''successfully wrote sound chunk''],
          numSamples := 0\<rparr>))"
  using assms
  by (cases w)
    (simp add: afterCreate_def chunk_defs flog_def ok_from_numeral pwrite_def header54_def
      header_calls_def ascii_def be32_def be16_def sr_def)

lemma afterHeader_ok:
  assumes "ok_from (faults e) (length (calls w)) 3"
  shows "afterHeader e w =
     map_option (\<lambda>v. deferTerminate (faults e) (deferCloseStream (faults e)
         (deferStopStream (faults e) v)))
       (recording (faults e) (sched e)
          (w\<lparr>calls := calls w @ [PaInitialize, OpenDefaultStream, StreamStart],
             logged := logged w @ [Flog Success ''successfully initialized portaudio'',
               Flog Success ''successfully opened audio stream'',
               Flog Success ''successfully started capturing audio'',
               Flog Info ''press enter to stop recording''],
             inbuf := replicate 64 0, err := None\<rparr>))"
  using assms
  by (cases w)
    (simp add: afterHeader_def afterInit_def afterOpen_def afterStart_def set_err_def
      pa_call_if flog_def ok_from_numeral option.map_comp comp_def)

lemma Run_setup_ok:
  assumes "ok_from (faults e) 0 17"
  shows "Run e outFile =
     map_option (teardown (faults e))
       (recording (faults e) (sched e) (loop_start (outFileName outFile (now e))))"
proof -
  let ?w = "(init_world\<lparr>calls := [OsCreate (outFileName outFile (now e))],
      logged := [Flog Success ''successfully created %s'']\<rparr>)"
  have c: "ok_from (faults e) (length (calls ?w)) 13"
    and h: "ok_from (faults e) 14 3" and z: "faults e 0 = None"
    using assms by (simp_all add: setup_split)
  have "Run e outFile = map_option (deferCloseFile (faults e)) (afterCreate e ?w)"
    using z by (simp add: Run_def set_err_def os_Create_if flog_def init_world_def)
  also have "afterCreate e ?w = map_option (deferFillSizes (faults e))
       (afterHeader e (?w\<lparr>bytes := header54, offset := length header54,
          calls := calls ?w @ header_calls,
          logged := logged ?w @ [Flog Success ''successfully wrote form chunk'',
            Flog Success ''successfully wrote common chunk'',
            Flog Success ''successfully wrote sound chunk''],
          numSamples := 0\<rparr>))"
    by (rule afterCreate_ok [OF c]) (simp_all add: init_world_def)
  also have "afterHeader e (?w\<lparr>bytes := header54, offset := length header54,
          calls := calls ?w @ header_calls,
          logged := logged ?w @ [Flog Success ''successfully wrote form chunk'',
            Flog Success ''successfully wrote common chunk'',
            Flog Success ''successfully wrote sound chunk''],
          numSamples := 0\<rparr>) =
      map_option (\<lambda>v. deferTerminate (faults e) (deferCloseStream (faults e)
         (deferStopStream (faults e) v)))
       (recording (faults e) (sched e) (loop_start (outFileName outFile (now e))))"
    using h by (subst afterHeader_ok)
      (simp_all add: length_header_calls length_header54 loop_start_def init_world_def)
  finally show ?thesis
    by (simp add: option.map_comp comp_def teardown_def [abs_def])
qed

subsection \<open>The chunk functions under any faults\<close>

lemma writeFormChunk_fst:
  "(fst (writeFormChunk flt w) = None) = ok_from flt (length (calls w)) 3"
  by (simp add: chunk_defs ok_from_numeral)

lemma writeCommonChunk_fst:
  "(fst (writeCommonChunk flt w) = None) = ok_from flt (length (calls w)) 6"
  by (simp add: chunk_defs ok_from_numeral)

lemma writeSoundChunk_fst:
  "(fst (writeSoundChunk flt w) = None) = ok_from flt (length (calls w)) 4"
  by (simp add: chunk_defs ok_from_numeral)

lemma writeFormChunk_calls:
  "\<exists>cs. calls (snd (writeFormChunk flt w)) = calls w @ cs \<and> filter file_ctl cs = []
     \<and> (fst (writeFormChunk flt w) = None \<longrightarrow> length cs = 3)"
  by (simp add: chunk_defs)

lemma writeCommonChunk_calls:
  "\<exists>cs. calls (snd (writeCommonChunk flt w)) = calls w @ cs \<and> filter file_ctl cs = []
     \<and> (fst (writeCommonChunk flt w) = None \<longrightarrow> length cs = 6)"
  by (simp add: chunk_defs)

lemma writeSoundChunk_calls:
  "\<exists>cs. calls (snd (writeSoundChunk flt w)) = calls w @ cs \<and> filter file_ctl cs = []
     \<and> (fst (writeSoundChunk flt w) = None \<longrightarrow> length cs = 4)"
  by (simp add: chunk_defs)

lemma chunk_keeps:
  "logged (snd (writeFormChunk flt w)) = logged w"
  "numSamples (snd (writeFormChunk flt w)) = numSamples w"
  "logged (snd (writeCommonChunk flt w)) = logged w"
  "numSamples (snd (writeCommonChunk flt w)) = numSamples w"
  "logged (snd (writeSoundChunk flt w)) = logged w"
  "numSamples (snd (writeSoundChunk flt w)) = numSamples w"
  by (simp_all add: chunk_defs)

subsection \<open>The body of Run, stage by stage, under any faults\<close>

lemma fl_Usage_proj:
  "calls (fl_Usage w) = calls w"
  "logged (fl_Usage w) = logged w @ [Usage]"
  "numSamples (fl_Usage w) = numSamples w"
  "inbuf (fl_Usage w) = inbuf w"
  "bytes (fl_Usage w) = bytes w"
  "offset (fl_Usage w) = offset w"
  by (simp_all add: fl_Usage_def)

lemma afterStart_None: "(afterStart e w = None) = (\<not> stops (sched e))"
  by (simp add: afterStart_def recording_ticks)

lemma afterStart_Some:
  assumes "afterStart e w = Some w'"
  shows "\<exists>cs. calls w' = calls w @ cs \<and> filter file_ctl cs = []"
    and "numSamples w' =
           numSamples w + of_nat (iterations (sched e)) * of_nat (length (inbuf w))"
proof -
  let ?v = "flog Info ''press enter to stop recording''
              (flog Success ''successfully started capturing audio'' w)"
  have w': "w' = ticks (faults e) (sched e) ?v"
    using assms by (simp add: afterStart_def recording_ticks split: if_splits)
  from ticks_calls [of "faults e" "sched e" ?v]
  show "\<exists>cs. calls w' = calls w @ cs \<and> filter file_ctl cs = []"
    by (auto simp add: w' flog_proj)
  show "numSamples w' =
           numSamples w + of_nat (iterations (sched e)) * of_nat (length (inbuf w))"
    by (simp add: w' ticks_numSamples flog_proj)
qed

lemma afterOpen_None:
  "(afterOpen e w = None) = (faults e (length (calls w)) = None \<and> \<not> stops (sched e))"
  by (simp add: afterOpen_def pa_call_if afterStart_None)

lemma afterOpen_Some:
  assumes "afterOpen e w = Some w'"
  shows "(\<exists>cs. calls w' = calls w @ cs \<and> filter file_ctl cs = []) \<and>
         numSamples w' = numSamples w +
           (if faults e (length (calls w)) = None
            then of_nat (iterations (sched e)) * of_nat (length (inbuf w)) else 0)"
proof (cases "faults e (length (calls w)) = None")
  case True
  with assms obtain v where v: "afterStart e (w\<lparr>calls := calls w @ [StreamStart]\<rparr>) = Some v"
    and w': "w' = deferStopStream (faults e) v"
    by (auto simp add: afterOpen_def pa_call_if)
  from afterStart_Some [OF v] show ?thesis
    by (auto simp add: w' deferStopStream_calls defer_keeps True)
next
  case False
  with assms show ?thesis
    by (auto simp add: afterOpen_def pa_call_if flog_proj fl_Usage_proj)
qed

lemma afterInit_None:
  "(afterInit e w = None) = (ok_from (faults e) (length (calls w)) 2 \<and> \<not> stops (sched e))"
  by (simp add: afterInit_def pa_call_if set_err_def afterOpen_None flog_proj ok_from_numeral)

lemma afterInit_Some:
  assumes "afterInit e w = Some w'"
  shows "(\<exists>cs. calls w' = calls w @ cs \<and> filter file_ctl cs = []) \<and>
         numSamples w' = numSamples w +
           (if ok_from (faults e) (length (calls w)) 2
            then 64 * of_nat (iterations (sched e)) else 0)"
proof (cases "faults e (length (calls w)) = None")
  case True
  let ?u = "flog Success ''successfully opened audio stream''
     (w\<lparr>inbuf := replicate 64 0, calls := calls w @ [OpenDefaultStream], err := None\<rparr>)"
  from True assms obtain v where v: "afterOpen e ?u = Some v"
    and w': "w' = deferCloseStream (faults e) v"
    by (auto simp add: afterInit_def pa_call_if set_err_def)
  from afterOpen_Some [OF v] show ?thesis
    by (auto simp add: w' deferCloseStream_calls defer_keeps True flog_proj ok_from_numeral)
next
  case False
  with assms show ?thesis
    by (auto simp add: afterInit_def pa_call_if set_err_def flog_proj fl_Usage_proj
        ok_from_numeral)
qed

lemma afterHeader_None:
  "(afterHeader e w = None) = (ok_from (faults e) (length (calls w)) 3 \<and> \<not> stops (sched e))"
  by (simp add: afterHeader_def pa_call_if afterInit_None flog_proj ok_from_numeral)

lemma afterHeader_Some:
  assumes "afterHeader e w = Some w'"
  shows "(\<exists>cs. calls w' = calls w @ cs \<and> filter file_ctl cs = []) \<and>
         numSamples w' = numSamples w +
           (if ok_from (faults e) (length (calls w)) 3
            then 64 * of_nat (iterations (sched e)) else 0)"
proof (cases "faults e (length (calls w)) = None")
  case True
  let ?u = "flog Success ''successfully initialized portaudio''
     (w\<lparr>calls := calls w @ [PaInitialize]\<rparr>)"
  from True assms obtain v where v: "afterInit e ?u = Some v"
    and w': "w' = deferTerminate (faults e) v"
    by (auto simp add: afterHeader_def pa_call_if)
  from afterInit_Some [OF v] show ?thesis
    by (auto simp add: w' deferTerminate_calls defer_keeps True flog_proj ok_from_numeral)
next
  case False
  with assms show ?thesis
    by (auto simp add: afterHeader_def pa_call_if flog_proj fl_Usage_proj ok_from_numeral)
qed

lemma ok_from_header:
  "ok_from flt k 13 = (ok_from flt k 3 \<and> ok_from flt (k + 3) 6 \<and> ok_from flt (k + 9) 4)"
  using ok_from_add [of flt k 3 10] ok_from_add [of flt "k + 3" 6 4] by (simp add: add.assoc)

lemma filter_patch_calls:
  "filter file_ctl (patch_calls n) = [FileSeek 4, FileSeek 22, FileSeek 42]"
  by (simp add: patch_calls_def)

lemma afterCreate_unfold:
  "afterCreate e w =
     (let r1 = writeFormChunk (faults e) w;
          r2 = writeCommonChunk (faults e)
                 (flog Success ''successfully wrote form chunk'' (snd r1));
          r3 = writeSoundChunk (faults e)
                 (flog Success ''successfully wrote common chunk'' (snd r2))
      in if fst r1 \<noteq> None
         then Some (fl_Usage (flog Error ''failed to write form chunk : %v'' (snd r1)))
         else if fst r2 \<noteq> None
         then Some (fl_Usage (flog Error ''failed to write common chunk : %v'' (snd r2)))
         else if fst r3 \<noteq> None
         then Some (fl_Usage (flog Error ''failed to write sound chunk : %v'' (snd r3)))
         else map_option (deferFillSizes (faults e))
                (afterHeader e
                   ((flog Success ''successfully wrote sound chunk'' (snd r3))
                      \<lparr>numSamples := 0\<rparr>)))"
  by (simp add: afterCreate_def Let_def case_prod_beta split: option.splits)

lemma afterCreate_shape:
  fixes e w
  defines "k \<equiv> length (calls w)"
  shows "(afterCreate e w = None) =
           (ok_from (faults e) k 16 \<and> \<not> stops (sched e))"
    and "afterCreate e w = Some w' \<Longrightarrow>
         (\<exists>cs. calls w' = calls w @ cs \<and>
            (if ok_from (faults e) k 13
             then \<exists>pre. cs = pre @ patch_calls (numSamples w') \<and> filter file_ctl pre = []
             else filter file_ctl cs = [])) \<and>
         numSamples w' =
           (if ok_from (faults e) k 13
            then (if ok_from (faults e) (k + 13) 3
                  then 64 * of_nat (iterations (sched e)) else 0)
            else numSamples w)"
proof -
  let ?flt = "faults e"
  define r1 where "r1 = writeFormChunk ?flt w"
  define w1 where "w1 = flog Success ''successfully wrote form chunk'' (snd r1)"
  define r2 where "r2 = writeCommonChunk ?flt w1"
  define w2 where "w2 = flog Success ''successfully wrote common chunk'' (snd r2)"
  define r3 where "r3 = writeSoundChunk ?flt w2"
  define w3 where
    "w3 = (flog Success ''successfully wrote sound chunk'' (snd r3))\<lparr>numSamples := 0\<rparr>"
  have unf: "afterCreate e w =
      (if fst r1 \<noteq> None
         then Some (fl_Usage (flog Error ''failed to write form chunk : %v'' (snd r1)))
         else if fst r2 \<noteq> None
         then Some (fl_Usage (flog Error ''failed to write common chunk : %v'' (snd r2)))
         else if fst r3 \<noteq> None
         then Some (fl_Usage (flog Error ''failed to write sound chunk : %v'' (snd r3)))
         else map_option (deferFillSizes ?flt) (afterHeader e w3))"
    unfolding afterCreate_unfold Let_def w3_def r3_def w2_def r2_def w1_def r1_def ..
  have "\<exists>cs. calls (snd r1) = calls w @ cs \<and> filter file_ctl cs = []
      \<and> (fst r1 = None \<longrightarrow> length cs = 3)"
    unfolding r1_def by (rule writeFormChunk_calls)
  then obtain cs1 where cs1: "calls (snd r1) = calls w @ cs1" "filter file_ctl cs1 = []"
      "fst r1 = None \<longrightarrow> length cs1 = 3"
    by auto
  have "\<exists>cs. calls (snd r2) = calls w1 @ cs \<and> filter file_ctl cs = []
      \<and> (fst r2 = None \<longrightarrow> length cs = 6)"
    unfolding r2_def by (rule writeCommonChunk_calls)
  then obtain cs2 where cs2: "calls (snd r2) = calls w1 @ cs2" "filter file_ctl cs2 = []"
      "fst r2 = None \<longrightarrow> length cs2 = 6"
    by auto
  have "\<exists>cs. calls (snd r3) = calls w2 @ cs \<and> filter file_ctl cs = []
      \<and> (fst r3 = None \<longrightarrow> length cs = 4)"
    unfolding r3_def by (rule writeSoundChunk_calls)
  then obtain cs3 where cs3: "calls (snd r3) = calls w2 @ cs3" "filter file_ctl cs3 = []"
      "fst r3 = None \<longrightarrow> length cs3 = 4"
    by auto
  have c1: "calls w1 = calls w @ cs1" and c2: "calls w2 = calls w @ cs1 @ cs2"
    and c3: "calls w3 = calls w @ cs1 @ cs2 @ cs3"
    by (simp_all add: w1_def w2_def w3_def flog_proj cs1(1) cs2(1) cs3(1))
  have n1: "numSamples (snd r1) = numSamples w" and n2: "numSamples (snd r2) = numSamples w"
    and n3: "numSamples (snd r3) = numSamples w" and n4: "numSamples w3 = 0"
    by (simp_all add: r1_def r2_def r3_def w1_def w2_def w3_def chunk_keeps flog_proj)
  have f1: "(fst r1 = None) = ok_from ?flt k 3"
    by (simp add: r1_def writeFormChunk_fst k_def)
  have f2: "(fst r2 = None) = ok_from ?flt (k + length cs1) 6"
    by (simp add: r2_def writeCommonChunk_fst c1 k_def)
  have f3: "(fst r3 = None) = ok_from ?flt (k + length cs1 + length cs2) 4"
    by (simp add: r3_def writeSoundChunk_fst c2 k_def add.assoc)
  have all: "ok_from ?flt k 13 = (fst r1 = None \<and> fst r2 = None \<and> fst r3 = None)"
  proof (cases "fst r1 = None")
    case r1: True
    then have l1: "length cs1 = 3" using cs1(3) by simp
    show ?thesis
    proof (cases "fst r2 = None")
      case r2: True
      then have l2: "length cs2 = 6" using cs2(3) by simp
      show ?thesis
        using r1 r2 f1 f2 f3 by (simp add: ok_from_header [of ?flt k] l1 l2 ac_simps)
    next
      case False
      then show ?thesis
        using r1 f1 f2 by (simp add: ok_from_header [of ?flt k] l1 ac_simps)
    qed
  next
    case False
    then show ?thesis
      using f1 by (simp add: ok_from_header [of ?flt k])
  qed
  have len3: "length (calls w3) = k + 13" if "ok_from ?flt k 13"
    using that cs1(3) cs2(3) cs3(3) unfolding all by (simp add: c3 k_def)
  have k16: "ok_from ?flt k 16 = (ok_from ?flt k 13 \<and> ok_from ?flt (k + 13) 3)"
    using ok_from_add [of ?flt k 13 3] by simp
  show "(afterCreate e w = None) = (ok_from (faults e) k 16 \<and> \<not> stops (sched e))"
  proof (cases "ok_from ?flt k 13")
    case True
    then have "afterCreate e w = map_option (deferFillSizes ?flt) (afterHeader e w3)"
      unfolding unf using all by simp
    then show ?thesis
      using True len3 [OF True] by (simp add: afterHeader_None k16)
  next
    case False
    then have "afterCreate e w \<noteq> None"
      unfolding unf using all by auto
    then show ?thesis
      using False by (simp add: k16)
  qed
  show "(\<exists>cs. calls w' = calls w @ cs \<and>
            (if ok_from (faults e) k 13
             then \<exists>pre. cs = pre @ patch_calls (numSamples w') \<and> filter file_ctl pre = []
             else filter file_ctl cs = [])) \<and>
         numSamples w' =
           (if ok_from (faults e) k 13
            then (if ok_from (faults e) (k + 13) 3
                  then 64 * of_nat (iterations (sched e)) else 0)
            else numSamples w)" if some: "afterCreate e w = Some w'"
  proof (cases "ok_from ?flt k 13")
    case True
    then have "afterCreate e w = map_option (deferFillSizes ?flt) (afterHeader e w3)"
      unfolding unf using all by simp
    with some obtain v where v: "afterHeader e w3 = Some v"
      and w': "w' = deferFillSizes ?flt v"
      by auto
    from afterHeader_Some [OF v] obtain cs where
      cs: "calls v = calls w3 @ cs" "filter file_ctl cs = []"
      and nv: "numSamples v = numSamples w3 +
           (if ok_from (faults e) (length (calls w3)) 3
            then 64 * of_nat (iterations (sched e)) else 0)"
      by blast
    have a: "calls w' = calls w @ (cs1 @ cs2 @ cs3 @ cs) @ patch_calls (numSamples w')"
      by (simp add: w' deferFillSizes_calls deferFillSizes_numSamples cs(1) c3)
    have b: "filter file_ctl (cs1 @ cs2 @ cs3 @ cs) = []"
      using cs1(2) cs2(2) cs3(2) cs(2) by simp
    have c: "numSamples w' =
        (if ok_from (faults e) (k + 13) 3 then 64 * of_nat (iterations (sched e)) else 0)"
      using nv by (simp add: w' deferFillSizes_numSamples n4 len3 [OF True])
    from a b have "\<exists>cs. calls w' = calls w @ cs \<and>
        (\<exists>pre. cs = pre @ patch_calls (numSamples w') \<and> filter file_ctl pre = [])"
      by blast
    with c True show ?thesis
      by simp
  next
    case False
    then consider "fst r1 \<noteq> None"
      | "fst r1 = None" "fst r2 \<noteq> None"
      | "fst r1 = None" "fst r2 = None" "fst r3 \<noteq> None"
      using all by auto
    then have "(\<exists>cs. calls w' = calls w @ cs \<and> filter file_ctl cs = []) \<and>
        numSamples w' = numSamples w"
    proof cases
      case 1
      with some have "w' = fl_Usage (flog Error ''failed to write form chunk : %v'' (snd r1))"
        unfolding unf by simp
      then show ?thesis
        using cs1(2) by (simp add: flog_proj fl_Usage_proj cs1(1) n1)
    next
      case 2
      with some have "w' = fl_Usage (flog Error ''failed to write common chunk : %v'' (snd r2))"
        unfolding unf by simp
      then show ?thesis
        using cs1(2) cs2(2) by (simp add: flog_proj fl_Usage_proj cs2(1) c1 n2)
    next
      case 3
      with some have "w' = fl_Usage (flog Error ''failed to write sound chunk : %v'' (snd r3))"
        unfolding unf by simp
      then show ?thesis
        using cs1(2) cs2(2) cs3(2) by (simp add: flog_proj fl_Usage_proj cs3(1) c2 n3)
    qed
    with False show ?thesis
      by simp
  qed
qed

subsection \<open>Run under any faults\<close>

lemma Run_unfold:
  "Run e outFile =
     (if faults e 0 \<noteq> None
      then Some (fl_Usage (flog Error ''failed to create %s : %v''
             (init_world\<lparr>calls := [OsCreate (outFileName outFile (now e))],
                err := Some (Failed (OsCreate (outFileName outFile (now e))))\<rparr>)))
      else map_option (deferCloseFile (faults e))
             (afterCreate e (flog Success ''successfully created %s''
                (init_world\<lparr>calls := [OsCreate (outFileName outFile (now e))]\<rparr>))))"
  by (simp add: Run_def set_err_def os_Create_if init_world_def)

lemma Run_None:
  "(Run e outFile = None) = (ok_from (faults e) 0 17 \<and> \<not> stops (sched e))"
proof -
  have "ok_from (faults e) 0 17 = (faults e 0 = None \<and> ok_from (faults e) 1 16)"
    using ok_from_add [of "faults e" 0 1 16] by simp
  then show ?thesis
    by (simp add: Run_unfold afterCreate_shape(1) flog_proj)
qed

lemma Run_Some:
  assumes "Run e outFile = Some w"
  shows "(\<exists>cs. calls w = OsCreate (outFileName outFile (now e)) # cs \<and>
           (if faults e 0 \<noteq> None then cs = []
            else if ok_from (faults e) 1 13
            then \<exists>pre. cs = pre @ patch_calls (numSamples w) @ [FileClose]
                   \<and> filter file_ctl pre = []
            else \<exists>pre. cs = pre @ [FileClose] \<and> filter file_ctl pre = [])) \<and>
         numSamples w =
           (if ok_from (faults e) 0 17 then 64 * of_nat (iterations (sched e)) else 0)"
proof (cases "faults e 0 = None")
  case False
  with assms have "w = fl_Usage (flog Error ''failed to create %s : %v''
             (init_world\<lparr>calls := [OsCreate (outFileName outFile (now e))],
                err := Some (Failed (OsCreate (outFileName outFile (now e))))\<rparr>))"
    by (simp add: Run_unfold)
  then show ?thesis
    using False by (auto simp add: flog_proj fl_Usage_proj init_world_def setup_split)
next
  case True
  let ?u = "flog Success ''successfully created %s''
                (init_world\<lparr>calls := [OsCreate (outFileName outFile (now e))]\<rparr>)"
  have cu: "calls ?u = [OsCreate (outFileName outFile (now e))]" and nu: "numSamples ?u = 0"
    by (simp_all add: flog_proj init_world_def)
  from True assms obtain v where v: "afterCreate e ?u = Some v"
    and w: "w = deferCloseFile (faults e) v"
    by (auto simp add: Run_unfold)
  from afterCreate_shape(2) [OF v] obtain cs where
    cs: "calls v = calls ?u @ cs"
      "if ok_from (faults e) (length (calls ?u)) 13
       then \<exists>pre. cs = pre @ patch_calls (numSamples v) \<and> filter file_ctl pre = []
       else filter file_ctl cs = []"
    and nv: "numSamples v =
           (if ok_from (faults e) (length (calls ?u)) 13
            then (if ok_from (faults e) (length (calls ?u) + 13) 3
                  then 64 * of_nat (iterations (sched e)) else 0)
            else numSamples ?u)"
    by auto
  have cw: "calls w = OsCreate (outFileName outFile (now e)) # (cs @ [FileClose])"
    by (simp add: w deferCloseFile_calls cs(1) cu)
  have nw: "numSamples w = numSamples v"
    by (simp add: w defer_keeps)
  have "numSamples w =
           (if ok_from (faults e) 0 17 then 64 * of_nat (iterations (sched e)) else 0)"
    using nv True by (simp add: nw cu nu setup_split)
  moreover have "if ok_from (faults e) 1 13
            then \<exists>pre. cs @ [FileClose] = pre @ patch_calls (numSamples w) @ [FileClose]
                   \<and> filter file_ctl pre = []
            else \<exists>pre. cs @ [FileClose] = pre @ [FileClose] \<and> filter file_ctl pre = []"
    using cs(2) by (auto simp add: cu nw)
  ultimately show ?thesis
    using True cw by simp
qed

subsection \<open>The counter as a number\<close>

lemma dvd64_goint: "64 dvd uint (64 * x :: 64 word)"
proof -
  have "uint (64 * x) = (64 * uint x) mod 2 ^ 64"
    by (simp add: uint_word_ariths)
  moreover have "(64 :: int) dvd 2 ^ 64"
    by simp
  ultimately show ?thesis
    by (simp add: dvd_mod)
qed

lemma sint_goint_of_nat:
  assumes "k < 2 ^ 63"
  shows "sint (word_of_nat k :: 64 word) = int k"
proof -
  have "signed_take_bit 63 (int k) = int k"
    using assms by (simp add: signed_take_bit_int_eq_self)
  then show ?thesis
    by (simp add: signed_of_nat)
qed

lemma sint_counter:
  assumes "k < 2 ^ 57"
  shows "sint (64 * word_of_nat k :: 64 word) = 64 * int k"
proof -
  have "64 * word_of_nat k = (word_of_nat (64 * k) :: 64 word)"
    by simp
  moreover have "64 * k < 2 ^ 63"
    using assms by simp
  ultimately show ?thesis
    using sint_goint_of_nat [of "64 * k"] by simp
qed

lemma no_faults_ok: "ok_from no_faults k n"
  by (simp add: ok_from_iff no_faults_def)

subsection \<open>The whole teardown\<close>

lemma teardown_calls:
  "calls (teardown flt w) =
     calls w @ [StreamStop, StreamClose, PaTerminate] @ patch_calls (numSamples w) @ [FileClose]"
  by (simp add: teardown_def deferCloseFile_calls deferFillSizes_calls deferTerminate_calls
      deferCloseStream_calls deferStopStream_calls defer_keeps)

lemma teardown_numSamples: "numSamples (teardown flt w) = numSamples w"
  by (simp add: teardown_def defer_keeps deferFillSizes_numSamples)

lemma length_patch_calls: "length (patch_calls n) = 6"
  by (simp add: patch_calls_def)

lemma teardown_logged:
  "logged (teardown flt w) =
     logged w @
     [Flog Info ''stopping audio stream'',
      report flt (length (calls w)) ''successfully stopped audio stream''
        ''failed to stop audio stream : %v'',
      Flog Info ''closing audio stream'',
      report flt (length (calls w) + 1) ''successfully closed audio stream''
        ''failed to close audio stream : %v'',
      Flog Info ''terminating portaudio'',
      report flt (length (calls w) + 2) ''successfully terminated port audio''
        ''failed to terminate portaudio : %v'',
      Flog Info ''filling in missing sizes'',
      report flt (length (calls w) + 8) ''successfully filled in missing sizes.''
        ''failed to fill in missing sizes : %v'',
      Flog Info ''closing %s'',
      report flt (length (calls w) + 9) ''successfully closed %s'' ''failed to close %s : %v'']"
  by (simp add: teardown_def deferCloseFile_logged deferFillSizes_logged deferTerminate_logged
      deferCloseStream_logged deferStopStream_logged deferCloseFile_calls deferFillSizes_calls
      deferTerminate_calls deferCloseStream_calls deferStopStream_calls length_patch_calls
      ac_simps)

lemma iterations_Default [simp]: "iterations (map Default ds @ ev # rest) =
    (case ev of Default s \<Rightarrow> Suc (length ds + iterations rest) | _ \<Rightarrow> length ds)"
  by (induction ds) (simp_all split: event.splits)

lemma stops_Default [simp]: "stops (map Default ds @ ev # rest) =
    (case ev of Default s \<Rightarrow> stops rest | _ \<Rightarrow> True)"
  by (induction ds) (simp_all split: event.splits)

lemma ticks_signal_line:
  "ticks flt (map Default ds @ OsSignal # rest) w =
     ticks flt (map Default ds @ StdinLine # rest') w"
  by (induction ds arbitrary: w) simp_all

lemma Run_stops:
  assumes "ok_from (faults e) 0 17" "stops (sched e)"
  shows "Run e outFile =
     Some (teardown (faults e)
       (ticks (faults e) (sched e) (loop_start (outFileName outFile (now e)))))"
  using assms by (simp add: Run_setup_ok recording_ticks)

lemma length_loop_start: "length (calls (loop_start name)) = 17"
  by (simp add: loop_start_def length_header_calls)

lemma Run_stops_calls:
  assumes "ok_from (faults e) 0 17" "stops (sched e)"
  shows "\<exists>w pre logs. Run e outFile = Some w \<and>
     w = teardown (faults e)
       (ticks (faults e) (sched e) (loop_start (outFileName outFile (now e)))) \<and>
     calls w = pre @ [StreamStop, StreamClose, PaTerminate] @ patch_calls (numSamples w)
       @ [FileClose] \<and>
     length pre = 17 + 2 * iterations (sched e) \<and>
     numSamples w = 64 * of_nat (iterations (sched e)) \<and>
     logged w = logs @
       [Flog Info ''stopping audio stream'',
        report (faults e) (length pre) ''successfully stopped audio stream''
          ''failed to stop audio stream : %v'',
        Flog Info ''closing audio stream'',
        report (faults e) (length pre + 1) ''successfully closed audio stream''
          ''failed to close audio stream : %v'',
        Flog Info ''terminating portaudio'',
        report (faults e) (length pre + 2) ''successfully terminated port audio''
          ''failed to terminate portaudio : %v'',
        Flog Info ''filling in missing sizes'',
        report (faults e) (length pre + 8) ''successfully filled in missing sizes.''
          ''failed to fill in missing sizes : %v'',
        Flog Info ''closing %s'',
        report (faults e) (length pre + 9) ''successfully closed %s''
          ''failed to close %s : %v'']"
proof -
  let ?s = "loop_start (outFileName outFile (now e))"
  let ?v = "ticks (faults e) (sched e) ?s"
  obtain cs where cs: "calls ?v = calls ?s @ cs" "length cs = 2 * iterations (sched e)"
    using ticks_calls [of "faults e" "sched e" ?s] by auto
  have n: "numSamples ?v = 64 * of_nat (iterations (sched e))"
    by (simp add: ticks_numSamples loop_start_def)
  have l: "length (calls ?v) = 17 + 2 * iterations (sched e)"
    by (simp add: cs length_loop_start)
  show ?thesis
    apply (rule exI [of _ "teardown (faults e) ?v"])
    apply (rule exI [of _ "calls ?v"])
    apply (rule exI [of _ "logged ?v"])
    apply (simp only: Run_stops [OF assms] teardown_calls teardown_numSamples teardown_logged
        n l)
    done
qed

lemma File_Seek_bytes:
  "bytes (snd (File_Seek flt off w)) = bytes w"
  "flt (length (calls w)) = None \<Longrightarrow> offset (snd (File_Seek flt off w)) = off"
  by (simp_all add: File_Seek_if)

lemma File_Write_bytes:
  "flt (length (calls w)) = None \<Longrightarrow>
     bytes (snd (File_Write flt bs w)) = pwrite (offset w) bs (bytes w)"
  by (simp add: File_Write_if)

lemma deferFillSizes_bytes:
  assumes "ok_from flt (length (calls w)) 6"
  shows "bytes (deferFillSizes flt w) =
     pwrite 42 (be32 (ucast (4 * numSamples w + 8)))
       (pwrite 22 (be32 (ucast (numSamples w)))
          (pwrite 4 (be32 (ucast (50 * numSamples w))) (bytes w)))"
proof -
  define k where "k = length (calls w)"
  define w0 where "w0 = flog Info ''filling in missing sizes'' w"
  define w1 where "w1 = set_err (File_Seek flt 4 w0)"
  define w2 where "w2 = set_err (File_Write flt (be32 (ucast (50 * numSamples w0))) w1)"
  define w3 where "w3 = set_err (File_Seek flt 22 w2)"
  define w4 where "w4 = set_err (File_Write flt (be32 (ucast (numSamples w3))) w3)"
  define w5 where "w5 = set_err (File_Seek flt 42 w4)"
  define w6 where "w6 = set_err (File_Write flt (be32 (ucast (4 * numSamples w5 + 8))) w5)"
  have d: "bytes (deferFillSizes flt w) = bytes w6"
    by (simp add: deferFillSizes_def Let_def binary_Write_def flog_proj
        w6_def w5_def w4_def w3_def w2_def w1_def w0_def)
  have ok: "flt (k + i) = None" if "i < 6" for i
    using assms that by (simp add: ok_from_iff k_def)
  have l0: "length (calls w0) = k" and n0: "numSamples w0 = numSamples w"
    and b0: "bytes w0 = bytes w"
    by (simp_all add: w0_def flog_proj k_def)
  have l1: "length (calls w1) = k + 1" and n1: "numSamples w1 = numSamples w"
    and b1: "bytes w1 = bytes w" and o1: "offset w1 = 4"
    using ok [of 0] by (simp_all add: w1_def patch_proj File_Seek_bytes l0 n0 b0)
  have l2: "length (calls w2) = k + 2" and n2: "numSamples w2 = numSamples w"
    and b2: "bytes w2 = pwrite 4 (be32 (ucast (50 * numSamples w))) (bytes w)"
    using ok [of 1] by (simp_all add: w2_def patch_proj File_Write_bytes l1 n1 b1 o1 n0)
  have l3: "length (calls w3) = k + 3" and n3: "numSamples w3 = numSamples w"
    and b3: "bytes w3 = bytes w2" and o3: "offset w3 = 22"
    using ok [of 2] by (simp_all add: w3_def patch_proj File_Seek_bytes l2 n2)
  have l4: "length (calls w4) = k + 4" and n4: "numSamples w4 = numSamples w"
    and b4: "bytes w4 = pwrite 22 (be32 (ucast (numSamples w))) (bytes w2)"
    using ok [of 3] by (simp_all add: w4_def patch_proj File_Write_bytes l3 n3 b3 o3)
  have l5: "length (calls w5) = k + 5" and n5: "numSamples w5 = numSamples w"
    and b5: "bytes w5 = bytes w4" and o5: "offset w5 = 42"
    using ok [of 4] by (simp_all add: w5_def patch_proj File_Seek_bytes l4 n4)
  have b6: "bytes w6 = pwrite 42 (be32 (ucast (4 * numSamples w + 8))) (bytes w4)"
    using ok [of 5] by (simp add: w6_def patch_proj File_Write_bytes l5 n5 b5 o5)
  show ?thesis
    by (simp add: d b6 b4 b2)
qed

lemma teardown_bytes:
  assumes "ok_from flt (length (calls w) + 3) 6"
  shows "bytes (teardown flt w) =
     pwrite 42 (be32 (ucast (4 * numSamples w + 8)))
       (pwrite 22 (be32 (ucast (numSamples w)))
          (pwrite 4 (be32 (ucast (50 * numSamples w))) (bytes w)))"
proof -
  let ?v = "deferTerminate flt (deferCloseStream flt (deferStopStream flt w))"
  have "length (calls ?v) = length (calls w) + 3"
    by (simp add: deferTerminate_calls deferCloseStream_calls deferStopStream_calls)
  with assms have "ok_from flt (length (calls ?v)) 6"
    by simp
  from deferFillSizes_bytes [OF this] show ?thesis
    by (simp add: teardown_def defer_keeps)
qed

subsection \<open>Decimal digits\<close>

lemma dec_digit: "n < 10 \<Longrightarrow> dec_nat n = [char_of (48 + n)]"
  by (subst dec_nat.simps) simp

lemma dec_step: "10 \<le> n \<Longrightarrow> dec_nat n = dec_nat (n div 10) @ [char_of (48 + n mod 10)]"
  by (subst dec_nat.simps) simp

lemma digit_chars:
  "char_of (48 :: nat) = CHR ''0''" "char_of (49 :: nat) = CHR ''1''"
  "char_of (50 :: nat) = CHR ''2''" "char_of (51 :: nat) = CHR ''3''"
  "char_of (52 :: nat) = CHR ''4''" "char_of (53 :: nat) = CHR ''5''"
  "char_of (54 :: nat) = CHR ''6''" "char_of (55 :: nat) = CHR ''7''"
  "char_of (56 :: nat) = CHR ''8''" "char_of (57 :: nat) = CHR ''9''"
  by (simp_all add: char_of_def bit_iff_odd)


lemma fmt_d_neg: "fmt_d (- 42) = ''-42''"
  by (simp add: fmt_d_def dec_step dec_digit digit_chars)

text \<open>
  The teardown after a line of stdin. When every call up to the start of the stream
  succeeded and the loop is left by a line of stdin after any number of ticks, Run returns,
  and the calls after the loop are, in this order: the stream's stop, the stream's close,
  portaudio's terminate, the six calls of the size patch, the file's close, whatever the
  outcome of each. The stream's stop and close, portaudio's terminate and the file's close
  log a status line from the outcome of their own call; the size patch logs one from the
  outcome of its last write alone.
\<close>

lemma clean_stop_teardown:
  assumes "ok_from (faults e) 0 17" and "sched e = map Default ds @ StdinLine # rest"
  shows "\<exists>w pre logs. Run e outFile = Some w \<and>
     calls w = pre @ [StreamStop, StreamClose, PaTerminate] @ patch_calls (numSamples w)
       @ [FileClose] \<and>
     length pre = 17 + 2 * length ds \<and>
     numSamples w = 64 * of_nat (length ds) \<and>
     logged w = logs @
       [Flog Info ''stopping audio stream'',
        report (faults e) (length pre) ''successfully stopped audio stream''
          ''failed to stop audio stream : %v'',
        Flog Info ''closing audio stream'',
        report (faults e) (length pre + 1) ''successfully closed audio stream''
          ''failed to close audio stream : %v'',
        Flog Info ''terminating portaudio'',
        report (faults e) (length pre + 2) ''successfully terminated port audio''
          ''failed to terminate portaudio : %v'',
        Flog Info ''filling in missing sizes'',
        report (faults e) (length pre + 8) ''successfully filled in missing sizes.''
          ''failed to fill in missing sizes : %v'',
        Flog Info ''closing %s'',
        report (faults e) (length pre + 9) ''successfully closed %s''
          ''failed to close %s : %v'']"
proof -
  have "stops (sched e)" and "iterations (sched e) = length ds"
    by (simp_all add: assms(2))
  with Run_stops_calls [OF assms(1), of outFile] show ?thesis
    by auto
qed

lemma clean_stop_teardown_example:
  "\<exists>w pre logs.
     Run \<lparr>faults = (\<lambda>i. if i = 19 \<or> i = 27 then Some 0 else None), now = 0,
          sched = [Default [1], StdinLine, Default [2]]\<rparr> ''x'' = Some w \<and>
     calls w = pre @ [StreamStop, StreamClose, PaTerminate] @ patch_calls 64 @ [FileClose] \<and>
     length pre = 19 \<and>
     logged w = logs @
       [Flog Info ''stopping audio stream'',
        Flog Error ''failed to stop audio stream : %v'',
        Flog Info ''closing audio stream'',
        Flog Success ''successfully closed audio stream'',
        Flog Info ''terminating portaudio'',
        Flog Success ''successfully terminated port audio'',
        Flog Info ''filling in missing sizes'',
        Flog Error ''failed to fill in missing sizes : %v'',
        Flog Info ''closing %s'',
        Flog Success ''successfully closed %s'']"
proof -
  let ?e = "\<lparr>faults = (\<lambda>i. if i = 19 \<or> i = 27 then Some 0 else None), now = 0,
          sched = [Default [1], StdinLine, Default [2]]\<rparr>"
  have ok: "ok_from (faults ?e) 0 17"
    by (simp add: ok_from_iff)
  have sc: "sched ?e = map Default [[1]] @ StdinLine # [Default [2]]"
    by simp
  from clean_stop_teardown [OF ok sc, of "''x''"] show ?thesis
    by (auto simp add: report_def)
qed

subsection \<open>The patched fields\<close>









subsection \<open>The header\<close>

lemma chunks_written:
  assumes "ok_from flt (length (calls w)) 13" "bytes w = []" "offset w = 0"
  shows "writeFormChunk flt w =
           (None, w\<lparr>bytes := take 12 header54, offset := 12,
              calls := calls w @ take 3 header_calls\<rparr>)"
    and "writeCommonChunk flt (snd (writeFormChunk flt w)) =
           (None, w\<lparr>bytes := take 38 header54, offset := 38,
              calls := calls w @ take 9 header_calls\<rparr>)"
    and "writeSoundChunk flt (snd (writeCommonChunk flt (snd (writeFormChunk flt w)))) =
           (None, w\<lparr>bytes := header54, offset := 54, calls := calls w @ header_calls\<rparr>)"
  using assms
  by (cases w;
      simp add: chunk_defs ok_from_numeral pwrite_def header54_def header_calls_def ascii_def
        be32_def be16_def sr_def)+

lemma header54_fields:
  "slice 0 4 header54 = ascii ''FORM''" "slice 4 4 header54 = be32 0"
  "slice 8 4 header54 = ascii ''AIFF''" "slice 12 4 header54 = ascii ''COMM''"
  "slice 16 4 header54 = be32 18" "slice 20 2 header54 = be16 1"
  "slice 22 4 header54 = be32 0" "slice 26 2 header54 = be16 32"
  "slice 28 10 header54 = [0x40, 0x0e, 0xac, 0x44, 0, 0, 0, 0, 0, 0]"
  "slice 38 4 header54 = ascii ''SSND''" "slice 42 4 header54 = be32 0"
  "slice 46 4 header54 = be32 0" "slice 50 4 header54 = be32 0"
  by (simp_all add: slice_def header54_def ascii_def be32_def be16_def)


subsection \<open>The markers in the finished file\<close>






subsection \<open>The size patch under any faults\<close>

lemma File_Seek_any:
  "offset (snd (File_Seek flt off w)) =
     (if flt (length (calls w)) = None then off else offset w)"
  by (simp add: File_Seek_if)

lemma File_Write_any:
  "bytes (snd (File_Write flt bs w)) =
     pwrite (offset w)
       (if flt (length (calls w)) = None then bs else take (the (flt (length (calls w)))) bs)
       (bytes w)"
  "offset (snd (File_Write flt bs w)) =
     offset w + length
       (if flt (length (calls w)) = None then bs else take (the (flt (length (calls w)))) bs)"
  by (simp_all add: File_Write_if)

lemma deferFillSizes_bytes_any:
  fixes flt w
  defines "k \<equiv> length (calls w)"
  defines "part \<equiv> \<lambda>i bs. if flt i = None then bs else take (the (flt i)) bs"
  defines "a \<equiv> part (k + 1) (be32 (ucast (50 * numSamples w)))"
  defines "b \<equiv> part (k + 3) (be32 (ucast (numSamples w)))"
  defines "c \<equiv> part (k + 5) (be32 (ucast (4 * numSamples w + 8)))"
  defines "o1 \<equiv> if flt k = None then 4 else offset w"
  defines "o3 \<equiv> if flt (k + 2) = None then 22 else o1 + length a"
  defines "o5 \<equiv> if flt (k + 4) = None then 42 else o3 + length b"
  shows "bytes (deferFillSizes flt w) =
           pwrite o5 c (pwrite o3 b (pwrite o1 a (bytes w)))"
proof -
  define w0 where "w0 = flog Info ''filling in missing sizes'' w"
  define w1 where "w1 = set_err (File_Seek flt 4 w0)"
  define w2 where "w2 = set_err (File_Write flt (be32 (ucast (50 * numSamples w0))) w1)"
  define w3 where "w3 = set_err (File_Seek flt 22 w2)"
  define w4 where "w4 = set_err (File_Write flt (be32 (ucast (numSamples w3))) w3)"
  define w5 where "w5 = set_err (File_Seek flt 42 w4)"
  define w6 where "w6 = set_err (File_Write flt (be32 (ucast (4 * numSamples w5 + 8))) w5)"
  have d: "bytes (deferFillSizes flt w) = bytes w6"
    by (simp add: deferFillSizes_def Let_def binary_Write_def flog_proj
        w6_def w5_def w4_def w3_def w2_def w1_def w0_def)
  have l0: "length (calls w0) = k" and n0: "numSamples w0 = numSamples w"
    and b0: "bytes w0 = bytes w" and o0: "offset w0 = offset w"
    by (simp_all add: w0_def flog_proj k_def)
  have l1: "length (calls w1) = k + 1" and n1: "numSamples w1 = numSamples w"
    and b1: "bytes w1 = bytes w" and f1: "offset w1 = o1"
    by (simp_all add: w1_def patch_proj File_Seek_bytes File_Seek_any l0 n0 b0 o0 o1_def)
  have l2: "length (calls w2) = k + 2" and n2: "numSamples w2 = numSamples w"
    and b2: "bytes w2 = pwrite o1 a (bytes w)" and f2: "offset w2 = o1 + length a"
    by (simp_all add: w2_def patch_proj File_Write_any l1 n1 b1 f1 n0 a_def part_def)
  have l3: "length (calls w3) = k + 3" and n3: "numSamples w3 = numSamples w"
    and b3: "bytes w3 = bytes w2" and f3: "offset w3 = o3"
    by (simp_all add: w3_def patch_proj File_Seek_bytes File_Seek_any l2 n2 f2 o3_def)
  have l4: "length (calls w4) = k + 4" and n4: "numSamples w4 = numSamples w"
    and b4: "bytes w4 = pwrite o3 b (bytes w2)" and f4: "offset w4 = o3 + length b"
    by (simp_all add: w4_def patch_proj File_Write_any l3 n3 b3 f3 b_def part_def)
  have l5: "length (calls w5) = k + 5" and n5: "numSamples w5 = numSamples w"
    and b5: "bytes w5 = bytes w4" and f5: "offset w5 = o5"
    by (simp_all add: w5_def patch_proj File_Seek_bytes File_Seek_any l4 n4 f4 o5_def)
  have b6: "bytes w6 = pwrite o5 c (bytes w4)"
    by (simp add: w6_def patch_proj File_Write_any l5 n5 b5 f5 c_def part_def)
  show ?thesis
    by (simp add: d b6 b4 b2)
qed

text \<open>
  What a failing seek does to the file: with no tick, a line of stdin, and the seek to
  offset 22 (call 22) failing, the count is written where the first patch ended, at offset
  8, over the format marker, and the log says that the sizes were filled in.
\<close>

lemma failed_seek_moves_patch:
  "\<exists>w. Run \<lparr>faults = (\<lambda>i. if i = 22 then Some 0 else None), now = 0, sched = [StdinLine]\<rparr>
           ''rec'' = Some w \<and>
     slice 8 4 (bytes w) = [0, 0, 0, 0] \<and> slice 8 4 (bytes w) \<noteq> ascii ''AIFF'' \<and>
     length (bytes w) = 54 \<and>
     Flog Success ''successfully filled in missing sizes.'' \<in> set (logged w)"
proof -
  let ?flt = "\<lambda>i::nat. if i = 22 then Some (0::nat) else None"
  let ?e = "\<lparr>faults = ?flt, now = 0, sched = [StdinLine]\<rparr>"
  let ?s = "loop_start (outFileName ''rec'' 0)"
  let ?v = "deferTerminate ?flt (deferCloseStream ?flt (deferStopStream ?flt ?s))"
  have ok: "ok_from (faults ?e) 0 17"
    by (simp add: ok_from_iff)
  have r: "Run ?e ''rec'' = Some (teardown ?flt ?s)"
    using Run_stops [OF ok, of "''rec''"] by simp
  have g: "Flog Success ''successfully filled in missing sizes.''
      \<in> set (logged (teardown ?flt ?s))"
    by (simp add: teardown_logged length_loop_start report_def)
  have v: "length (calls ?v) = 20" "numSamples ?v = 0" "offset ?v = 54" "bytes ?v = header54"
    by (simp_all add: deferTerminate_calls deferCloseStream_calls deferStopStream_calls
        defer_keeps length_loop_start) (simp_all add: loop_start_def)
  have "bytes (teardown ?flt ?s) = bytes (deferFillSizes ?flt ?v)"
    by (simp add: teardown_def defer_keeps)
  also have "\<dots> = pwrite 42 (be32 8) (pwrite 8 (be32 0) (pwrite 4 (be32 0) header54))"
    by (simp add: deferFillSizes_bytes_any v)
  finally have b: "bytes (teardown ?flt ?s) =
      pwrite 42 (be32 8) (pwrite 8 (be32 0) (pwrite 4 (be32 0) header54))" .
  have "slice 8 4 (bytes (teardown ?flt ?s)) = [0, 0, 0, 0]"
    "length (bytes (teardown ?flt ?s)) = 54"
    by (simp_all add: b pwrite_def be32_def header54_def slice_def)
  with r g show ?thesis
    by (simp add: ascii_def)
qed

section \<open>The claims\<close>

text \<open>
  C9. The counter is 0 when it is declared, one tick of the loop adds the length of the
  frame buffer to it, which is 64 and stays 64, and nothing else changes it: when Run
  returns, the counter is 64 times the number of iterations the loop completed (none when the
  loop was never entered), in Go's 64-bit arithmetic always, and as a number while the
  iterations stay below 2^57; it is a multiple of 64; and when the size patch ran, its
  calls carry the values of that counter.
\<close>

theorem C9_sample_counter:
  "numSamples (captureTick flt samples w) = numSamples w + of_nat (length (inbuf w)) \<and>
   length (inbuf (captureTick flt samples w)) = length (inbuf w) \<and>
   length (inbuf (loop_start name)) = 64 \<and> numSamples (loop_start name) = 0 \<and>
   (Run e outFile = Some w' \<longrightarrow>
      numSamples w' =
        (if ok_from (faults e) 0 17 then 64 * of_nat (iterations (sched e)) else 0) \<and>
      64 dvd uint (numSamples w') \<and>
      (iterations (sched e) < 2 ^ 57 \<longrightarrow>
         sint (numSamples w') =
           (if ok_from (faults e) 0 17 then 64 * int (iterations (sched e)) else 0)) \<and>
      (ok_from (faults e) 0 14 \<longrightarrow>
         (\<exists>pre. calls w' = pre @ patch_calls (numSamples w') @ [FileClose])))"
proof -
  have loop: "numSamples (captureTick flt samples w) = numSamples w + of_nat (length (inbuf w))"
    "length (inbuf (captureTick flt samples w)) = length (inbuf w)"
    by (simp_all add: captureTick_numSamples captureTick_inbuf)
  have start: "length (inbuf (loop_start name)) = 64" "numSamples (loop_start name) = 0"
    by (simp_all add: loop_start_def)
  have run: "numSamples w' =
        (if ok_from (faults e) 0 17 then 64 * of_nat (iterations (sched e)) else 0) \<and>
      64 dvd uint (numSamples w') \<and>
      (iterations (sched e) < 2 ^ 57 \<longrightarrow>
         sint (numSamples w') =
           (if ok_from (faults e) 0 17 then 64 * int (iterations (sched e)) else 0)) \<and>
      (ok_from (faults e) 0 14 \<longrightarrow>
         (\<exists>pre. calls w' = pre @ patch_calls (numSamples w') @ [FileClose]))"
    if some: "Run e outFile = Some w'"
  proof -
    from Run_Some [OF some] obtain cs where
      cs: "calls w' = OsCreate (outFileName outFile (now e)) # cs"
        "if faults e 0 \<noteq> None then cs = []
            else if ok_from (faults e) 1 13
            then \<exists>pre. cs = pre @ patch_calls (numSamples w') @ [FileClose]
                   \<and> filter file_ctl pre = []
            else \<exists>pre. cs = pre @ [FileClose] \<and> filter file_ctl pre = []"
      and n: "numSamples w' =
           (if ok_from (faults e) 0 17 then 64 * of_nat (iterations (sched e)) else 0)"
      by blast
    have d: "64 dvd uint (numSamples w')"
      by (simp add: n dvd64_goint)
    have s: "sint (numSamples w') =
           (if ok_from (faults e) 0 17 then 64 * int (iterations (sched e)) else 0)"
      if "iterations (sched e) < 2 ^ 57"
      using that by (simp add: n sint_counter)
    have "ok_from (faults e) 0 14 = (faults e 0 = None \<and> ok_from (faults e) 1 13)"
      using ok_from_add [of "faults e" 0 1 13] by simp
    then have p: "\<exists>pre. calls w' = pre @ patch_calls (numSamples w') @ [FileClose]"
      if "ok_from (faults e) 0 14"
      using that cs by (auto intro: exI [of _ "OsCreate (outFileName outFile (now e)) # pre" for pre])
    from n d s p show ?thesis
      by blast
  qed
  from loop start run show ?thesis
    by blast
qed

theorem C9_sample_counter_witness:
  "\<exists>w'. Run \<lparr>faults = no_faults, now = 0, sched = [Default [], Default [7], StdinLine]\<rparr>
           ''x'' = Some w' \<and>
     numSamples w' = 128 \<and> sint (numSamples w') = 128 \<and> 64 dvd uint (numSamples w') \<and>
     (\<exists>pre. calls w' = pre @ patch_calls 128 @ [FileClose])"
proof -
  let ?e = "\<lparr>faults = no_faults, now = 0, sched = [Default [], Default [7], StdinLine]\<rparr>"
  have "Run ?e ''x'' \<noteq> None"
    by (simp add: Run_None)
  then obtain w' where w': "Run ?e ''x'' = Some w'"
    by auto
  from C9_sample_counter [where e = ?e and outFile = "''x''" and w' = w'
      and flt = no_faults and samples = "[]" and w = init_world and name = "''x''"] w'
  show ?thesis
    by (auto simp add: no_faults_ok)
qed

text \<open>
  C3 (as amended). A signal taken by the loop's select makes Run return at once, with no
  further tick, and the return runs every deferred function: the calls after the loop are
  the stream's stop and close, portaudio's terminate, the six calls of the size patch and
  the file's close, the size patch logs its line, and the world Run returns is the one it
  returns when a line of stdin arrives at the same iteration.
\<close>

theorem C3_signal_stop_runs_finalize:
  assumes "ok_from (faults e) 0 17" and "sched e = map Default ds @ OsSignal # rest"
  shows "\<exists>w pre. Run e outFile = Some w \<and>
     Run (e\<lparr>sched := map Default ds @ StdinLine # rest\<rparr>) outFile = Some w \<and>
     calls w = pre @ [StreamStop, StreamClose, PaTerminate] @ patch_calls (numSamples w)
       @ [FileClose] \<and>
     length pre = 17 + 2 * length ds \<and>
     numSamples w = 64 * of_nat (length ds) \<and>
     Flog Info ''filling in missing sizes'' \<in> set (logged w)"
proof -
  let ?e' = "e\<lparr>sched := map Default ds @ StdinLine # rest\<rparr>"
  have st: "stops (sched e)" and it: "iterations (sched e) = length ds"
    by (simp_all add: assms(2))
  have same: "Run ?e' outFile = Run e outFile"
    using assms(1) by (simp add: Run_stops st assms(2) ticks_signal_line [of _ ds rest _ rest])
  from Run_stops_calls [OF assms(1) st, of outFile] same it show ?thesis
    by auto
qed

theorem C3_signal_stop_runs_finalize_witness:
  "\<exists>w pre. Run \<lparr>faults = no_faults, now = 0, sched = [Default [5], OsSignal]\<rparr> ''x'' = Some w \<and>
     Run \<lparr>faults = no_faults, now = 0, sched = [Default [5], StdinLine]\<rparr> ''x'' = Some w \<and>
     calls w = pre @ [StreamStop, StreamClose, PaTerminate] @ patch_calls 64 @ [FileClose] \<and>
     length pre = 19 \<and> numSamples w = 64 \<and>
     Flog Info ''filling in missing sizes'' \<in> set (logged w)"
proof -
  let ?e = "\<lparr>faults = no_faults, now = 0, sched = [Default [5], OsSignal]\<rparr>"
  have ok: "ok_from (faults ?e) 0 17"
    by (simp add: no_faults_ok)
  have sc: "sched ?e = map Default [[5]] @ OsSignal # []"
    by simp
  from C3_signal_stop_runs_finalize [OF ok sc, of "''x''"] show ?thesis
    by auto
qed

text \<open>
  The claim as stated fails: with a signal at the first iteration and no failing call, Run
  returns after the size patch has run. Its calls are in the history between portaudio's
  terminate and the file's close, its line is logged, and the sound chunk's size in the
  file is 8, no longer the placeholder 0.
\<close>

theorem C3_counterexample:
  "\<exists>w. Run \<lparr>faults = no_faults, now = 0, sched = [OsSignal]\<rparr> ''rec'' = Some w \<and>
     drop 17 (calls w) =
       [StreamStop, StreamClose, PaTerminate, FileSeek 4, FileWrite [0, 0, 0, 0],
        FileSeek 22, FileWrite [0, 0, 0, 0], FileSeek 42, FileWrite [0, 0, 0, 8], FileClose] \<and>
     Flog Success ''successfully filled in missing sizes.'' \<in> set (logged w) \<and>
     slice 42 4 (bytes w) = [0, 0, 0, 8]"
proof -
  let ?e = "\<lparr>faults = no_faults, now = 0, sched = [OsSignal]\<rparr>"
  let ?s = "loop_start (outFileName ''rec'' (now ?e))"
  have r: "Run ?e ''rec'' = Some (teardown no_faults ?s)"
    using Run_stops [of ?e "''rec''"] by (simp add: no_faults_ok)
  have c: "drop 17 (calls (teardown no_faults ?s)) =
       [StreamStop, StreamClose, PaTerminate, FileSeek 4, FileWrite [0, 0, 0, 0],
        FileSeek 22, FileWrite [0, 0, 0, 0], FileSeek 42, FileWrite [0, 0, 0, 8], FileClose]"
    by (simp add: teardown_calls patch_calls_def be32_def loop_start_def header_calls_def)
  have l: "Flog Success ''successfully filled in missing sizes.''
      \<in> set (logged (teardown no_faults ?s))"
    by (simp add: teardown_logged report_def no_faults_def)
  have b: "slice 42 4 (bytes (teardown no_faults ?s)) = [0, 0, 0, 8]"
    by (simp add: teardown_bytes no_faults_ok loop_start_def header54_def pwrite_def be32_def
        slice_def)
  from r c l b show ?thesis
    by simp
qed

text \<open>
  C8 (as amended). Run returns on every path but that of a loop that never stops. Once the
  file is created it is closed exactly once, by the last call of the run. The size patch
  runs exactly once, right before that close, on every path on which the three header
  chunks were written (a stop by stdin, a stop by signal, a failure of portaudio's
  initialize, of the opening or of the start of the stream); when a write of a header chunk
  fails, Run returns before the patch is deferred, and the file is closed without any seek.
\<close>

theorem C8_patch_and_close_once:
  "(Run e outFile = None) = (ok_from (faults e) 0 17 \<and> \<not> stops (sched e)) \<and>
   (Run e outFile = Some w \<and> faults e 0 = None \<longrightarrow>
      last (calls w) = FileClose \<and>
      filter file_ctl (calls w) =
        (if ok_from (faults e) 1 13
         then [FileSeek 4, FileSeek 22, FileSeek 42, FileClose] else [FileClose]) \<and>
      (ok_from (faults e) 1 13 \<longrightarrow>
         (\<exists>pre. calls w = pre @ patch_calls (numSamples w) @ [FileClose] \<and>
            filter file_ctl pre = [])))"
proof -
  have a: "last (calls w) = FileClose \<and>
      filter file_ctl (calls w) =
        (if ok_from (faults e) 1 13
         then [FileSeek 4, FileSeek 22, FileSeek 42, FileClose] else [FileClose]) \<and>
      (ok_from (faults e) 1 13 \<longrightarrow>
         (\<exists>pre. calls w = pre @ patch_calls (numSamples w) @ [FileClose] \<and>
            filter file_ctl pre = []))"
    if some: "Run e outFile = Some w" and z: "faults e 0 = None"
  proof -
    let ?c = "OsCreate (outFileName outFile (now e))"
    from Run_Some [OF some] z obtain cs where
      cs: "calls w = ?c # cs"
        "if ok_from (faults e) 1 13
            then \<exists>pre. cs = pre @ patch_calls (numSamples w) @ [FileClose]
                   \<and> filter file_ctl pre = []
            else \<exists>pre. cs = pre @ [FileClose] \<and> filter file_ctl pre = []"
      by auto
    show ?thesis
    proof (cases "ok_from (faults e) 1 13")
      case True
      with cs(2) obtain pre where pre: "cs = pre @ patch_calls (numSamples w) @ [FileClose]"
          "filter file_ctl pre = []"
        by auto
      have "calls w = (?c # pre) @ patch_calls (numSamples w) @ [FileClose]"
        "filter file_ctl (?c # pre) = []"
        by (simp_all add: cs(1) pre)
      then show ?thesis
        using True by (auto simp add: filter_patch_calls simp del: append_Cons)
    next
      case False
      with cs(2) obtain pre where pre: "cs = pre @ [FileClose]" "filter file_ctl pre = []"
        by auto
      then show ?thesis
        using False by (simp add: cs(1))
    qed
  qed
  show ?thesis
    using a by (simp add: Run_None)
qed

theorem C8_patch_and_close_once_witness:
  "\<exists>w. Run \<lparr>faults = (\<lambda>i. if i = 14 then Some 0 else None), now = 0,
              sched = [StdinLine]\<rparr> ''x'' = Some w \<and>
     last (calls w) = FileClose \<and>
     filter file_ctl (calls w) = [FileSeek 4, FileSeek 22, FileSeek 42, FileClose] \<and>
     (\<exists>pre. calls w = pre @ patch_calls (numSamples w) @ [FileClose])"
proof -
  let ?e = "\<lparr>faults = (\<lambda>i. if i = 14 then Some 0 else None), now = 0,
              sched = [StdinLine]\<rparr>"
  have h: "ok_from (faults ?e) 1 13" and z: "faults ?e 0 = None"
    by (simp_all add: ok_from_iff)
  have "Run ?e ''x'' \<noteq> None"
    using C8_patch_and_close_once [of ?e "''x''"] by simp
  then obtain w where w: "Run ?e ''x'' = Some w"
    by auto
  from C8_patch_and_close_once [of ?e "''x''" w] w h z show ?thesis
    by auto
qed

text \<open>
  The claim as stated fails where the first write of the form chunk fails: Run reports
  the failure and returns, the file is closed, and no seek was made.
\<close>

theorem C8_counterexample:
  "Run \<lparr>faults = (\<lambda>i. if i = 1 then Some 0 else None), now = 0, sched = [StdinLine]\<rparr> ''rec''
     = Some \<lparr>bytes = [], offset = 0,
         calls = [OsCreate ''rec.aiff'', FileWrite [0x46, 0x4F, 0x52, 0x4D], FileClose],
         logged = [Flog Success ''successfully created %s'',
                   Flog Error ''failed to write form chunk : %v'', Usage,
                   Flog Info ''closing %s'', Flog Success ''successfully closed %s''],
         inbuf = [], numSamples = 0, err = None\<rparr>"
  by (simp add: Run_unfold afterCreate_unfold Let_def chunk_defs deferCloseFile_def call_if
      flog_def fl_Usage_def init_world_def outFileName_def pwrite_def ascii_def)



text \<open>
  C6. The order of the teardown and the attempt of every step hold (lemma
  \<open>clean_stop_teardown\<close>), but the status of the size patch does not report its failures:
  after one tick and a line of stdin, with the seek to offset 4 (call 22) failing and every
  other call succeeding, the steps run in the order of the claim and the log says that the
  sizes were filled in.
\<close>

theorem C6_patch_status_hides_failed_seek:
  "\<exists>w pre logs.
     Run \<lparr>faults = (\<lambda>i. if i = 22 then Some 0 else None), now = 0,
          sched = [Default [], StdinLine]\<rparr> ''x'' = Some w \<and>
     calls w = pre @ [StreamStop, StreamClose, PaTerminate] @ patch_calls 64 @ [FileClose] \<and>
     length pre = 19 \<and> calls w ! 22 = FileSeek 4 \<and>
     logged w = logs @
       [Flog Info ''stopping audio stream'',
        Flog Success ''successfully stopped audio stream'',
        Flog Info ''closing audio stream'',
        Flog Success ''successfully closed audio stream'',
        Flog Info ''terminating portaudio'',
        Flog Success ''successfully terminated port audio'',
        Flog Info ''filling in missing sizes'',
        Flog Success ''successfully filled in missing sizes.'',
        Flog Info ''closing %s'',
        Flog Success ''successfully closed %s'']"
proof -
  let ?e = "\<lparr>faults = (\<lambda>i. if i = 22 then Some 0 else None), now = 0,
          sched = [Default [], StdinLine]\<rparr>"
  have ok: "ok_from (faults ?e) 0 17"
    by (simp add: ok_from_iff)
  have sc: "sched ?e = map Default [[]] @ StdinLine # []"
    by simp
  from clean_stop_teardown [OF ok sc, of "''x''"] obtain w pre logs where
    r: "Run ?e ''x'' = Some w"
    and c: "calls w = pre @ [StreamStop, StreamClose, PaTerminate] @ patch_calls (numSamples w)
       @ [FileClose]"
    and l: "length pre = 19" and n: "numSamples w = 64"
    and g: "logged w = logs @
       [Flog Info ''stopping audio stream'',
        Flog Success ''successfully stopped audio stream'',
        Flog Info ''closing audio stream'',
        Flog Success ''successfully closed audio stream'',
        Flog Info ''terminating portaudio'',
        Flog Success ''successfully terminated port audio'',
        Flog Info ''filling in missing sizes'',
        Flog Success ''successfully filled in missing sizes.'',
        Flog Info ''closing %s'',
        Flog Success ''successfully closed %s'']"
    by (auto simp add: report_def)
  have "calls w ! 22 = FileSeek 4"
    using l by (simp add: c nth_append patch_calls_def)
  with r c l n g show ?thesis
    by auto
qed

text \<open>
  C4. The size patch makes its six calls whatever the outcome of each, so no failure stops
  the patches that follow; but its status line is decided by the outcome of the last write
  alone, because every call overwrites the one variable that is tested at the end. After
  one tick and a line of stdin, with the write of the total at offset 4 (call 23) failing
  and every other call succeeding, the remaining patches are made and the log says that the
  sizes were filled in.
\<close>

theorem C4_patch_status_last_write_only:
  "calls (deferFillSizes flt w) = calls w @ patch_calls (numSamples w) \<and>
   logged (deferFillSizes flt w) =
     logged w @ [Flog Info ''filling in missing sizes'',
       report flt (length (calls w) + 5) ''successfully filled in missing sizes.''
         ''failed to fill in missing sizes : %v''] \<and>
   (\<exists>v pre logs.
      Run \<lparr>faults = (\<lambda>i. if i = 23 then Some 0 else None), now = 0,
           sched = [Default [], StdinLine]\<rparr> ''x'' = Some v \<and>
      calls v = pre @ [FileSeek 4, FileWrite [0, 0, 12, 128], FileSeek 22,
        FileWrite [0, 0, 0, 64], FileSeek 42, FileWrite [0, 0, 1, 8], FileClose] \<and>
      length pre = 22 \<and>
      logged v = logs @
        [Flog Info ''filling in missing sizes'',
         Flog Success ''successfully filled in missing sizes.'',
         Flog Info ''closing %s'',
         Flog Success ''successfully closed %s''])"
proof -
  let ?e = "\<lparr>faults = (\<lambda>i. if i = 23 then Some 0 else None), now = 0,
          sched = [Default [], StdinLine]\<rparr>"
  have ok: "ok_from (faults ?e) 0 17"
    by (simp add: ok_from_iff)
  have sc: "sched ?e = map Default [[]] @ StdinLine # []"
    by simp
  from clean_stop_teardown [OF ok sc, of "''x''"] obtain v pre logs where
    r: "Run ?e ''x'' = Some v"
    and c: "calls v = (pre @ [StreamStop, StreamClose, PaTerminate]) @
       [FileSeek 4, FileWrite [0, 0, 12, 128], FileSeek 22,
        FileWrite [0, 0, 0, 64], FileSeek 42, FileWrite [0, 0, 1, 8], FileClose]"
    and l: "length (pre @ [StreamStop, StreamClose, PaTerminate]) = 22"
    and g: "logged v = (logs @
       [Flog Info ''stopping audio stream'',
        Flog Success ''successfully stopped audio stream'',
        Flog Info ''closing audio stream'',
        Flog Success ''successfully closed audio stream'',
        Flog Info ''terminating portaudio'',
        Flog Success ''successfully terminated port audio'']) @
       [Flog Info ''filling in missing sizes'',
        Flog Success ''successfully filled in missing sizes.'',
        Flog Info ''closing %s'',
        Flog Success ''successfully closed %s'']"
    by (auto simp add: report_def patch_calls_def be32_def)
  from r c l g have "\<exists>v pre logs.
      Run ?e ''x'' = Some v \<and>
      calls v = pre @ [FileSeek 4, FileWrite [0, 0, 12, 128], FileSeek 22,
        FileWrite [0, 0, 0, 64], FileSeek 42, FileWrite [0, 0, 1, 8], FileClose] \<and>
      length pre = 22 \<and>
      logged v = logs @
        [Flog Info ''filling in missing sizes'',
         Flog Success ''successfully filled in missing sizes.'',
         Flog Info ''closing %s'',
         Flog Success ''successfully closed %s'']"
    by blast
  then show ?thesis
    by (simp add: deferFillSizes_calls deferFillSizes_logged)
qed




text \<open>
  C2. On an empty file at offset 0, when their thirteen writes succeed, the three chunk
  functions in the order Run calls them return no error and leave a file of 54 bytes, at
  offset 54, laid out as the claim says; the first write of the capture loop then puts its
  samples right after these 54 bytes.
\<close>

theorem C2_header_layout:
  assumes "ok_from flt (length (calls w)) 13" and "bytes w = []" and "offset w = 0"
  shows "fst (writeFormChunk flt w) = None \<and>
     fst (writeCommonChunk flt (snd (writeFormChunk flt w))) = None \<and>
     fst (writeSoundChunk flt (snd (writeCommonChunk flt (snd (writeFormChunk flt w))))) = None \<and>
     (\<exists>w3. w3 = snd (writeSoundChunk flt (snd (writeCommonChunk flt
                 (snd (writeFormChunk flt w))))) \<and>
        length (bytes w3) = 54 \<and> offset w3 = 54 \<and>
        slice 0 4 (bytes w3) = ascii ''FORM'' \<and>
        slice 4 4 (bytes w3) = be32 0 \<and>
        slice 8 4 (bytes w3) = ascii ''AIFF'' \<and>
        slice 12 4 (bytes w3) = ascii ''COMM'' \<and>
        slice 16 4 (bytes w3) = be32 18 \<and>
        slice 20 2 (bytes w3) = be16 1 \<and>
        slice 22 4 (bytes w3) = be32 0 \<and>
        slice 26 2 (bytes w3) = be16 32 \<and>
        slice 28 10 (bytes w3) = [0x40, 0x0e, 0xac, 0x44, 0, 0, 0, 0, 0, 0] \<and>
        slice 38 4 (bytes w3) = ascii ''SSND'' \<and>
        slice 42 4 (bytes w3) = be32 0 \<and>
        slice 46 4 (bytes w3) = be32 0 \<and>
        slice 50 4 (bytes w3) = be32 0 \<and>
        (\<forall>flt' samples. flt' (Suc (length (calls w3))) = None \<longrightarrow>
           slice 54 (4 * length (inbuf w3)) (bytes (captureTick flt' samples w3)) =
             be32s (refill (inbuf w3) samples)))"
proof -
  note c = chunks_written [OF assms]
  let ?w3 = "w\<lparr>bytes := header54, offset := 54, calls := calls w @ header_calls\<rparr>"
  have t: "slice 54 (4 * length (inbuf ?w3)) (bytes (captureTick flt' samples ?w3)) =
             be32s (refill (inbuf ?w3) samples)"
    if "flt' (Suc (length (calls ?w3))) = None" for flt' samples
  proof -
    have "offset ?w3 = length (bytes ?w3)"
      by (simp add: length_header54)
    from captureTick_bytes(3) [where w = ?w3 and flt = flt' and samples = samples, OF this that]
    show ?thesis
      by (simp add: slice_def length_header54)
  qed
  have e1: "fst (writeFormChunk flt w) = None"
    by (simp only: c(1) fst_conv)
  have e2: "fst (writeCommonChunk flt (snd (writeFormChunk flt w))) = None"
    by (simp only: c(2) fst_conv)
  have e3: "fst (writeSoundChunk flt (snd (writeCommonChunk flt
               (snd (writeFormChunk flt w))))) = None"
    and w3: "snd (writeSoundChunk flt (snd (writeCommonChunk flt
               (snd (writeFormChunk flt w))))) = ?w3"
    by (simp_all only: c(3) fst_conv snd_conv)
  have f: "bytes ?w3 = header54" "offset ?w3 = 54"
    by simp_all
  show ?thesis
    using t by (simp add: e1 e2 e3 w3 header54_fields length_header54)
qed

theorem C2_header_layout_witness:
  "bytes (snd (writeSoundChunk no_faults (snd (writeCommonChunk no_faults
      (snd (writeFormChunk no_faults init_world)))))) =
     [0x46, 0x4F, 0x52, 0x4D, 0, 0, 0, 0, 0x41, 0x49, 0x46, 0x46,
      0x43, 0x4F, 0x4D, 0x4D, 0, 0, 0, 18, 0, 1, 0, 0, 0, 0, 0, 32,
      0x40, 0x0e, 0xac, 0x44, 0, 0, 0, 0, 0, 0,
      0x53, 0x53, 0x4E, 0x44, 0, 0, 0, 0, 0, 0, 0, 0, 0, 0, 0, 0] \<and>
   offset (snd (writeSoundChunk no_faults (snd (writeCommonChunk no_faults
      (snd (writeFormChunk no_faults init_world)))))) = 54 \<and>
   slice 16 4 (bytes (snd (writeSoundChunk no_faults (snd (writeCommonChunk no_faults
      (snd (writeFormChunk no_faults init_world))))))) = [0, 0, 0, 18]"
proof -
  have h: "bytes init_world = []" "offset init_world = 0"
    by (simp_all add: init_world_def)
  have b: "bytes (snd (writeSoundChunk no_faults (snd (writeCommonChunk no_faults
      (snd (writeFormChunk no_faults init_world)))))) = header54"
    by (simp add: chunks_written(3) [OF no_faults_ok h])
  from C2_header_layout [OF no_faults_ok h] have "offset (snd (writeSoundChunk no_faults
      (snd (writeCommonChunk no_faults (snd (writeFormChunk no_faults init_world)))))) = 54"
    and "slice 16 4 (bytes (snd (writeSoundChunk no_faults (snd (writeCommonChunk no_faults
      (snd (writeFormChunk no_faults init_world))))))) = be32 18"
    by simp_all
  then show ?thesis
    by (simp add: b header54_def be32_def)
qed





end
